theory Spec2Isabelle
  imports Complex_Main
begin

section \<open>Configuration (config.py)\<close>

text \<open>
  Grid positions and directions are Python tuples of two unbounded integers, compared by
  value. The constants below are the ones of \<^verbatim>\<open>config.py\<close> that the game logic reads.
\<close>

type_synonym position = "int \<times> int"

definition INITIAL_SNAKE_LENGTH :: nat where
  "INITIAL_SNAKE_LENGTH = 3"

definition INITIAL_SNAKE_POSITION :: position where
  "INITIAL_SNAKE_POSITION = (20, 11)"

definition INITIAL_FPS :: int where
  "INITIAL_FPS = 4"

definition MAX_FPS :: int where
  "MAX_FPS = 15"

definition SPEED_INCREASE_INTERVAL :: int where
  "SPEED_INCREASE_INTERVAL = 30"

definition SPEED_INCREASE_AMOUNT :: int where
  "SPEED_INCREASE_AMOUNT = 1"

definition NORMAL_FOOD_VALUE :: int where
  "NORMAL_FOOD_VALUE = 10"

definition COOKIE_FOOD_VALUE :: int where
  "COOKIE_FOOD_VALUE = 20"

text \<open>
  \<^verbatim>\<open>COOKIE_SPAWN_CHANCE = 0.15\<close> is a float that is only ever compared with the outcome of
  \<^verbatim>\<open>random.random()\<close>; both are read as real numbers here.
\<close>

definition COOKIE_SPAWN_CHANCE :: real where
  "COOKIE_SPAWN_CHANCE = 15 / 100"

definition COOKIE_LIFETIME :: int where
  "COOKIE_LIFETIME = 4"

definition UP :: "int \<times> int" where
  "UP = (0, -1)"

definition DOWN :: "int \<times> int" where
  "DOWN = (0, 1)"

definition LEFT :: "int \<times> int" where
  "LEFT = (-1, 0)"

definition RIGHT :: "int \<times> int" where
  "RIGHT = (1, 0)"

section \<open>Python exceptions and the random module\<close>

datatype py_error = IndexError | ValueError | SystemExit

text \<open>
  \<^verbatim>\<open>random.randint(a, b)\<close> returns some integer \<open>N\<close> with \<open>a \<le> N \<le> b\<close> and raises
  ValueError when the range is empty. The outcome of one draw is determined by a raw
  natural number \<open>r\<close> supplied from outside; every \<open>N\<close> of the range is the outcome of the
  draw \<open>r = N - a\<close>.
\<close>

definition randint :: "int \<Rightarrow> int \<Rightarrow> nat \<Rightarrow> py_error + int" where
  "randint a b r = (if b < a then Inl ValueError else Inr (a + int r mod (b - a + 1)))"

text \<open>
  The random outcomes that one call of \<^verbatim>\<open>Food.generate\<close> consumes: the value of
  \<^verbatim>\<open>random.random()\<close> (a number in \<open>[0, 1)\<close>), and for the attempt numbered \<open>i\<close> the raw
  draws behind its two \<^verbatim>\<open>randint\<close> calls (x first, then y).
\<close>

record draws =
  roll :: real
  cells :: "nat \<Rightarrow> nat \<times> nat"

section \<open>The snake (snake.py)\<close>

text \<open>
  \<^verbatim>\<open>Snake\<close> and \<^verbatim>\<open>Food\<close> both store the playable area they were constructed with, under the
  same four attribute names; the common part is a parent record. The attributes used only
  for drawing (tileset manager, cell size, grid size and pixel offsets) are left out.
\<close>

record grid_object =
  playable_start_x :: int
  playable_start_y :: int
  playable_width :: int
  playable_height :: int

record Snake = grid_object +
  body :: "position list"
  direction :: "int \<times> int"
  next_direction :: "int \<times> int"
  grow_pending :: bool

text \<open>\<^verbatim>\<open>Snake._initialize_body\<close>: appends the initial segments, head first, to the body.\<close>

definition initialize_body :: "Snake \<Rightarrow> Snake" where
  "initialize_body s =
     (case INITIAL_SNAKE_POSITION of (start_x, start_y) \<Rightarrow>
        s\<lparr>body := foldl (\<lambda>b i. b @ [(start_x - int i, start_y)]) (body s)
                     [0..<INITIAL_SNAKE_LENGTH]\<rparr>)"

text \<open>\<^verbatim>\<open>Snake.__init__\<close>, given the playable area.\<close>

definition new_snake :: "int \<Rightarrow> int \<Rightarrow> int \<Rightarrow> int \<Rightarrow> Snake" where
  "new_snake psx psy pw ph =
     initialize_body
       \<lparr>playable_start_x = psx, playable_start_y = psy, playable_width = pw,
        playable_height = ph, body = [], direction = RIGHT, next_direction = RIGHT,
        grow_pending = False\<rparr>"

text \<open>\<^verbatim>\<open>Snake.update_direction\<close>.\<close>

definition update_direction :: "Snake \<Rightarrow> int \<times> int \<Rightarrow> Snake" where
  "update_direction s new_direction =
     (if length (body s) > 1 \<and> new_direction = (- fst (direction s), - snd (direction s))
      then s
      else s\<lparr>next_direction := new_direction\<rparr>)"

text \<open>\<^verbatim>\<open>Snake._is_valid_position\<close>.\<close>

definition snake_is_valid_position :: "Snake \<Rightarrow> position \<Rightarrow> bool" where
  "snake_is_valid_position s pos =
     (case pos of (x, y) \<Rightarrow>
        playable_start_x s \<le> x \<and> x < playable_start_x s + playable_width s \<and>
        playable_start_y s \<le> y \<and> y < playable_start_y s + playable_height s)"

text \<open>
  \<^verbatim>\<open>Snake.move\<close>. The direction is updated first; reading \<^verbatim>\<open>self.body[0]\<close> of an empty
  body raises IndexError. Otherwise the result is the returned flag and the snake after
  the call.
\<close>

definition move :: "Snake \<Rightarrow> py_error + (bool \<times> Snake)" where
  "move s =
     (let s1 = s\<lparr>direction := next_direction s\<rparr> in
      case body s1 of
        [] \<Rightarrow> Inl IndexError
      | (head_x, head_y) # _ \<Rightarrow>
          let new_head = (head_x + fst (direction s1), head_y + snd (direction s1)) in
          if \<not> snake_is_valid_position s1 new_head then Inr (False, s1)
          else if new_head \<in> set (body s1) then Inr (False, s1)
          else
            let s2 = s1\<lparr>body := new_head # body s1\<rparr> in
            if \<not> grow_pending s2 then Inr (True, s2\<lparr>body := butlast (body s2)\<rparr>)
            else Inr (True, s2\<lparr>grow_pending := False\<rparr>))"

text \<open>\<^verbatim>\<open>Snake.grow\<close>.\<close>

definition grow :: "Snake \<Rightarrow> Snake" where
  "grow s = s\<lparr>grow_pending := True\<rparr>"

text \<open>\<^verbatim>\<open>Snake.get_head_position\<close>: \<^verbatim>\<open>self.body[0]\<close>.\<close>

definition get_head_position :: "Snake \<Rightarrow> py_error + position" where
  "get_head_position s = (case body s of [] \<Rightarrow> Inl IndexError | h # _ \<Rightarrow> Inr h)"

text \<open>\<^verbatim>\<open>Snake.get_body_positions\<close>: a copy of the body.\<close>

definition get_body_positions :: "Snake \<Rightarrow> position list" where
  "get_body_positions s = body s"

text \<open>\<^verbatim>\<open>Snake.reset\<close>.\<close>

definition snake_reset :: "Snake \<Rightarrow> Snake" where
  "snake_reset s =
     initialize_body
       (s\<lparr>body := [], direction := RIGHT, next_direction := RIGHT, grow_pending := False\<rparr>)"

section \<open>The food (food.py)\<close>

text \<open>
  The attribute \<^verbatim>\<open>value\<close> is the field \<open>food_value\<close>. The food type is the string the
  source stores, \<^verbatim>\<open>"normal"\<close> or \<^verbatim>\<open>"cookie"\<close>.
\<close>

record Food = grid_object +
  position :: "position option"
  food_type :: string
  food_value :: int
  lifetime :: int
  is_expired :: bool

text \<open>\<^verbatim>\<open>Food.__init__\<close>, given the playable area.\<close>

definition new_food :: "int \<Rightarrow> int \<Rightarrow> int \<Rightarrow> int \<Rightarrow> Food" where
  "new_food psx psy pw ph =
     \<lparr>playable_start_x = psx, playable_start_y = psy, playable_width = pw,
      playable_height = ph, position = None, food_type = ''normal'',
      food_value = NORMAL_FOOD_VALUE, lifetime = 0, is_expired = False\<rparr>"

text \<open>\<^verbatim>\<open>Food._is_valid_position\<close>.\<close>

definition food_is_valid_position :: "Food \<Rightarrow> position \<Rightarrow> bool" where
  "food_is_valid_position F pos =
     (case pos of (x, y) \<Rightarrow>
        playable_start_x F \<le> x \<and> x < playable_start_x F + playable_width F \<and>
        playable_start_y F \<le> y \<and> y < playable_start_y F + playable_height F)"

text \<open>
  \<^verbatim>\<open>Food._get_random_position\<close>: two \<^verbatim>\<open>randint\<close> calls, x then y; the excluded positions
  are not consulted.
\<close>

definition get_random_position :: "Food \<Rightarrow> position list \<Rightarrow> nat \<times> nat \<Rightarrow> py_error + position" where
  "get_random_position F exclude_positions r =
     (case randint (playable_start_x F) (playable_start_x F + playable_width F - 1) (fst r) of
        Inl e \<Rightarrow> Inl e
      | Inr x \<Rightarrow>
          (case randint (playable_start_y F) (playable_start_y F + playable_height F - 1) (snd r) of
             Inl e \<Rightarrow> Inl e
           | Inr y \<Rightarrow> Inr (x, y)))"

definition max_attempts :: nat where
  "max_attempts = 1000"

text \<open>
  The \<^verbatim>\<open>while attempts < max_attempts\<close> loop of \<^verbatim>\<open>Food.generate\<close>. \<open>Some p\<close> is the position
  at which the loop body returns; \<open>None\<close> means that the loop ran out of attempts.
\<close>

function generate_loop ::
  "Food \<Rightarrow> position list \<Rightarrow> (nat \<Rightarrow> nat \<times> nat) \<Rightarrow> nat \<Rightarrow> py_error + position option" where
  "generate_loop F exclude_positions c attempts =
     (if attempts < max_attempts then
        (case get_random_position F exclude_positions (c attempts) of
           Inl e \<Rightarrow> Inl e
         | Inr new_position \<Rightarrow>
             if food_is_valid_position F new_position \<and> new_position \<notin> set exclude_positions
             then Inr (Some new_position)
             else generate_loop F exclude_positions c (attempts + 1))
      else Inr None)"
  by pat_completeness auto
termination
  by (relation "measure (\<lambda>(F, ex, c, attempts). max_attempts - attempts)") auto

text \<open>
  \<^verbatim>\<open>Food.generate\<close>: the returned position together with the food after the call. The
  caller always passes \<^verbatim>\<open>current_fps\<close>, so its default value is not modelled.
\<close>

definition generate :: "Food \<Rightarrow> position list option \<Rightarrow> int \<Rightarrow> draws \<Rightarrow> py_error + (position \<times> Food)" where
  "generate F exclude_positions current_fps d =
     (let excl = (case exclude_positions of None \<Rightarrow> [] | Some e \<Rightarrow> e);
          F1 = (if roll d < COOKIE_SPAWN_CHANCE
                then F\<lparr>food_type := ''cookie'', food_value := COOKIE_FOOD_VALUE,
                       lifetime := COOKIE_LIFETIME * current_fps\<rparr>
                else F\<lparr>food_type := ''normal'', food_value := NORMAL_FOOD_VALUE,
                       lifetime := 0, is_expired := False\<rparr>)
      in case generate_loop F1 excl (cells d) 0 of
           Inl e \<Rightarrow> Inl e
         | Inr (Some new_position) \<Rightarrow> Inr (new_position, F1\<lparr>position := Some new_position\<rparr>)
         | Inr None \<Rightarrow> Inr ((5, 5), F1\<lparr>position := Some (5, 5)\<rparr>))"

definition get_value :: "Food \<Rightarrow> int" where
  "get_value F = food_value F"

definition is_cookie :: "Food \<Rightarrow> bool" where
  "is_cookie F = (food_type F = ''cookie'')"

text \<open>\<^verbatim>\<open>Food.update\<close>.\<close>

definition update :: "Food \<Rightarrow> Food" where
  "update F =
     (if food_type F = ''cookie'' \<and> lifetime F > 0 then
        (let F1 = F\<lparr>lifetime := lifetime F - 1\<rparr> in
         if lifetime F1 \<le> 0 then F1\<lparr>is_expired := True, position := None\<rparr> else F1)
      else F)"

text \<open>\<^verbatim>\<open>Food.is_eaten\<close>.\<close>

definition is_eaten :: "Food \<Rightarrow> position \<Rightarrow> bool" where
  "is_eaten F snake_head_position =
     (case position F of None \<Rightarrow> False | Some p \<Rightarrow> snake_head_position = p)"

text \<open>\<^verbatim>\<open>Food.reset\<close>.\<close>

definition food_reset :: "Food \<Rightarrow> Food" where
  "food_reset F =
     F\<lparr>position := None, food_type := ''normal'', food_value := NORMAL_FOOD_VALUE,
       lifetime := 0, is_expired := False\<rparr>"

section \<open>The game (game.py)\<close>

datatype GameState = MENU | PLAYING | PAUSED | GAME_OVER

text \<open>
  The part of \<^verbatim>\<open>SnakeGame\<close> that the game logic reads and writes; the screen, clock, fonts,
  music and sounds are left out.
\<close>

record SnakeGame =
  state :: GameState
  score :: int
  high_score :: int
  current_fps :: int
  snake :: Snake
  food :: Food

text \<open>\<^verbatim>\<open>SnakeGame._generate_food\<close>.\<close>

definition generate_food :: "SnakeGame \<Rightarrow> draws \<Rightarrow> py_error + SnakeGame" where
  "generate_food g d =
     (let snake_positions = get_body_positions (snake g) in
      case generate (food g) (Some snake_positions) (current_fps g) d of
        Inl e \<Rightarrow> Inl e
      | Inr (p, F) \<Rightarrow> Inr (g\<lparr>food := F\<rparr>))"

text \<open>
  \<^verbatim>\<open>SnakeGame.__init__\<close>: the playable area is 30 by 15 cells starting at (5, 4); the game
  starts in the menu with a first food already generated.
\<close>

definition new_game :: "draws \<Rightarrow> py_error + SnakeGame" where
  "new_game d =
     generate_food
       \<lparr>state = MENU, score = 0, high_score = 0, current_fps = INITIAL_FPS,
        snake = new_snake 5 4 30 15, food = new_food 5 4 30 15\<rparr> d"

text \<open>\<^verbatim>\<open>SnakeGame._update_speed\<close>; \<^verbatim>\<open>//\<close> on Python integers rounds down, as \<open>div\<close> does.\<close>

definition update_speed :: "SnakeGame \<Rightarrow> SnakeGame" where
  "update_speed g =
     (let speed_increases = score g div SPEED_INCREASE_INTERVAL;
          new_fps = INITIAL_FPS + speed_increases * SPEED_INCREASE_AMOUNT
      in g\<lparr>current_fps := min new_fps MAX_FPS\<rparr>)"

text \<open>\<^verbatim>\<open>SnakeGame._eat_food\<close>.\<close>

definition eat_food :: "SnakeGame \<Rightarrow> SnakeGame" where
  "eat_food g =
     (let g1 = g\<lparr>score := score g + get_value (food g)\<rparr>;
          g2 = (if is_cookie (food g1) then g1\<lparr>snake := grow (grow (snake g1))\<rparr>
                else g1\<lparr>snake := grow (snake g1)\<rparr>)
      in update_speed g2)"

text \<open>\<^verbatim>\<open>SnakeGame._game_over\<close>.\<close>

definition game_over :: "SnakeGame \<Rightarrow> SnakeGame" where
  "game_over g =
     (let g1 = g\<lparr>state := GAME_OVER\<rparr> in
      if score g1 > high_score g1 then g1\<lparr>high_score := score g1\<rparr> else g1)"

text \<open>\<^verbatim>\<open>SnakeGame._start_game\<close> and \<^verbatim>\<open>SnakeGame._restart_game\<close>.\<close>

definition start_game :: "SnakeGame \<Rightarrow> draws \<Rightarrow> py_error + SnakeGame" where
  "start_game g d =
     generate_food
       (g\<lparr>state := PLAYING, score := 0, current_fps := INITIAL_FPS,
          snake := snake_reset (snake g)\<rparr>) d"

definition restart_game :: "SnakeGame \<Rightarrow> draws \<Rightarrow> py_error + SnakeGame" where
  "restart_game g d = start_game g d"

text \<open>\<^verbatim>\<open>SnakeGame._return_to_menu\<close>.\<close>

definition return_to_menu :: "SnakeGame \<Rightarrow> SnakeGame" where
  "return_to_menu g =
     g\<lparr>state := MENU, snake := snake_reset (snake g), score := 0,
       current_fps := INITIAL_FPS\<rparr>"

text \<open>
  The second half of \<^verbatim>\<open>SnakeGame._update_game\<close>, from \<^verbatim>\<open>self.snake.move()\<close> on: the snake
  moves; a failed move ends the game; food under the new head is eaten and replaced.
\<close>

definition move_snake_and_eat :: "SnakeGame \<Rightarrow> draws \<Rightarrow> py_error + SnakeGame" where
  "move_snake_and_eat g d =
     (case move (snake g) of
        Inl e \<Rightarrow> Inl e
      | Inr (ok, sn) \<Rightarrow>
          let g1 = g\<lparr>snake := sn\<rparr> in
          if \<not> ok then Inr (game_over g1)
          else
            (case get_head_position (snake g1) of
               Inl e \<Rightarrow> Inl e
             | Inr h \<Rightarrow>
                 if is_eaten (food g1) h then generate_food (eat_food g1) d else Inr g1))"

text \<open>
  \<^verbatim>\<open>SnakeGame._update_game\<close>, one simulation step. \<open>d1\<close> holds the random outcomes for the
  food generated after an expiry, \<open>d2\<close> those for the food generated after eating.
\<close>

definition update_game :: "SnakeGame \<Rightarrow> draws \<Rightarrow> draws \<Rightarrow> py_error + SnakeGame" where
  "update_game g d1 d2 =
     (let g1 = g\<lparr>food := update (food g)\<rparr> in
      case (if is_expired (food g1) then generate_food g1 d1 else Inr g1) of
        Inl e \<Rightarrow> Inl e
      | Inr g2 \<Rightarrow> move_snake_and_eat g2 d2)"

text \<open>\<^verbatim>\<open>SnakeGame._update\<close>.\<close>

definition game_update :: "SnakeGame \<Rightarrow> draws \<Rightarrow> draws \<Rightarrow> py_error + SnakeGame" where
  "game_update g d1 d2 = (if state g = PLAYING then update_game g d1 d2 else Inr g)"

text \<open>\<^verbatim>\<open>SnakeGame._pause_game\<close> and \<^verbatim>\<open>SnakeGame._resume_game\<close>.\<close>

definition pause_game :: "SnakeGame \<Rightarrow> SnakeGame" where
  "pause_game g = g\<lparr>state := PAUSED\<rparr>"

definition resume_game :: "SnakeGame \<Rightarrow> SnakeGame" where
  "resume_game g = g\<lparr>state := PLAYING\<rparr>"

text \<open>The pygame key codes that the game distinguishes; \<open>K_other\<close> is any other key.\<close>

datatype key =
  K_SPACE | K_RETURN | K_ESCAPE | K_r | K_UP | K_DOWN | K_LEFT | K_RIGHT | K_w | K_s | K_a | K_d
  | K_other

text \<open>\<^verbatim>\<open>SnakeGame._handle_movement_key\<close>, with its \<^verbatim>\<open>direction_map\<close>.\<close>

definition direction_map :: "key \<rightharpoonup> int \<times> int" where
  "direction_map =
     [K_UP \<mapsto> (0, -1), K_DOWN \<mapsto> (0, 1), K_LEFT \<mapsto> (-1, 0), K_RIGHT \<mapsto> (1, 0),
      K_w \<mapsto> (0, -1), K_s \<mapsto> (0, 1), K_a \<mapsto> (-1, 0), K_d \<mapsto> (1, 0)]"

definition handle_movement_key :: "SnakeGame \<Rightarrow> key \<Rightarrow> SnakeGame" where
  "handle_movement_key g k =
     (case direction_map k of
        Some new_direction \<Rightarrow> g\<lparr>snake := update_direction (snake g) new_direction\<rparr>
      | None \<Rightarrow> g)"

text \<open>
  \<^verbatim>\<open>SnakeGame._handle_keydown\<close>. Escape in the menu leaves the program through
  \<^verbatim>\<open>sys.exit()\<close>. \<open>d\<close> holds the random outcomes for the food that a start or restart
  generates.
\<close>

definition handle_keydown :: "SnakeGame \<Rightarrow> key \<Rightarrow> draws \<Rightarrow> py_error + SnakeGame" where
  "handle_keydown g k d =
     (case state g of
        MENU \<Rightarrow>
          if k = K_SPACE \<or> k = K_RETURN then start_game g d
          else if k = K_ESCAPE then Inl SystemExit
          else Inr g
      | PLAYING \<Rightarrow>
          if k = K_SPACE then Inr (pause_game g)
          else if k = K_ESCAPE then Inr (return_to_menu g)
          else Inr (handle_movement_key g k)
      | PAUSED \<Rightarrow>
          if k = K_SPACE then Inr (resume_game g)
          else if k = K_ESCAPE then Inr (return_to_menu g)
          else Inr g
      | GAME_OVER \<Rightarrow>
          if k = K_r then restart_game g d
          else if k = K_ESCAPE then Inr (return_to_menu g)
          else Inr g)"

text \<open>
  The loop of \<^verbatim>\<open>SnakeGame.run\<close>, as the sequence of key events and \<^verbatim>\<open>_update\<close> calls
  that it performs on the game, each with the random outcomes it consumes. Rendering and
  the clock do not touch the game state and are left out; the sequence ends when the
  window is closed.
\<close>

datatype input = KEYDOWN key draws | UPDATE draws draws

fun run :: "SnakeGame \<Rightarrow> input list \<Rightarrow> py_error + SnakeGame" where
  "run g [] = Inr g"
| "run g (KEYDOWN k d # rest) =
     (case handle_keydown g k d of Inl e \<Rightarrow> Inl e | Inr g' \<Rightarrow> run g' rest)"
| "run g (UPDATE d1 d2 # rest) =
     (case game_update g d1 d2 of Inl e \<Rightarrow> Inl e | Inr g' \<Rightarrow> run g' rest)"

section \<open>The tick-rate formula of the specification\<close>

text \<open>
  The specification gives the tick rate as
  \<^verbatim>\<open>min(initial_tick_rate + floor(score / interval) * increment, max_tick_rate)\<close>.
  This definition follows those words, with a real quotient and its floor; it is compared
  below with what \<open>update_speed\<close> computes.
\<close>

definition tick_rate_formula :: "int \<Rightarrow> int \<Rightarrow> int \<Rightarrow> int \<Rightarrow> int \<Rightarrow> int" where
  "tick_rate_formula initial_tick_rate interval increment max_tick_rate sc =
     min (initial_tick_rate + \<lfloor>real_of_int sc / real_of_int interval\<rfloor> * increment)
         max_tick_rate"

section \<open>Concrete states and random outcomes\<close>

text \<open>The snake and the food as \<^verbatim>\<open>SnakeGame.__init__\<close> constructs them.\<close>

definition game_snake :: Snake where
  "game_snake = new_snake 5 4 30 15"

definition game_food :: Food where
  "game_food = new_food 5 4 30 15"

text \<open>
  A snake on the top row of the playable area, moving right, for which a turn upwards has
  been requested.
\<close>

definition top_row_turning_up :: Snake where
  "top_row_turning_up =
     \<lparr>playable_start_x = 5, playable_start_y = 4, playable_width = 30, playable_height = 15,
      body = [(20, 4), (19, 4), (18, 4)], direction = RIGHT, next_direction = UP,
      grow_pending = False\<rparr>"

text \<open>
  A snake of four cells coiled in a square of two by two cells, its head next to its last
  cell, with a turn towards that cell requested.
\<close>

definition coiled_snake :: Snake where
  "coiled_snake =
     \<lparr>playable_start_x = 5, playable_start_y = 4, playable_width = 30, playable_height = 15,
      body = [(5, 4), (5, 5), (6, 5), (6, 4)], direction = UP, next_direction = RIGHT,
      grow_pending = False\<rparr>"

text \<open>
  Random outcomes: \<open>stuck_draws\<close> picks normal food and draws the cell (5, 5) at every
  attempt; \<open>second_try_draws\<close> picks normal food and draws the cells (5, 4), (6, 4), ... in
  turn; \<open>cookie_draws\<close> picks a cookie and draws the cell (5, 4) at every attempt.
\<close>

definition stuck_draws :: draws where
  "stuck_draws = \<lparr>roll = 1 / 2, cells = (\<lambda>i. (0, 1))\<rparr>"

definition second_try_draws :: draws where
  "second_try_draws = \<lparr>roll = 1 / 2, cells = (\<lambda>i. (i, 0))\<rparr>"

definition cookie_draws :: draws where
  "cookie_draws = \<lparr>roll = 1 / 10, cells = (\<lambda>i. (0, 0))\<rparr>"

text \<open>A cookie whose lifetime has run out: what \<open>update\<close> leaves behind.\<close>

definition expired_cookie :: Food where
  "expired_cookie =
     \<lparr>playable_start_x = 5, playable_start_y = 4, playable_width = 30, playable_height = 15,
      position = None, food_type = ''cookie'', food_value = 20, lifetime = 0,
      is_expired = True\<rparr>"

text \<open>
  Game states of one session. \<open>fresh_menu\<close> is the menu state right after construction.
  \<open>started_game\<close> is the state that starting from \<open>fresh_menu\<close> reaches when the first
  food is a cookie: at tick rate 4 the cookie has 16 ticks to live. The snake then goes
  one cell up and turns right along row 10; \<open>on_row_10 k\<close> is the game after tick
  \<open>k + 1\<close>, with the head in column \<open>20 + k\<close> and \<open>15 - k\<close> ticks left for the cookie.
\<close>

definition fresh_menu :: SnakeGame where
  "fresh_menu =
     \<lparr>state = MENU, score = 0, high_score = 0, current_fps = 4, snake = game_snake,
      food = game_food\<lparr>position := Some (5, 4)\<rparr>\<rparr>"

definition started_game :: SnakeGame where
  "started_game =
     \<lparr>state = PLAYING, score = 0, high_score = 0, current_fps = 4, snake = game_snake,
      food = game_food\<lparr>position := Some (5, 4), food_type := ''cookie'', food_value := 20,
                        lifetime := 16\<rparr>\<rparr>"

definition on_row_10 :: "nat \<Rightarrow> SnakeGame" where
  "on_row_10 k =
     \<lparr>state = PLAYING, score = 0, high_score = 0, current_fps = 4,
      snake = game_snake\<lparr>body := [(20 + int k, 10), (19 + int k, 10), (18 + int k, 10)]\<rparr>,
      food = game_food\<lparr>position := Some (5, 4), food_type := ''cookie'', food_value := 20,
                        lifetime := 15 - int k\<rparr>\<rparr>"

text \<open>
  Going straight on, the snake is at the right wall after tick 15 (\<open>on_row_10 14\<close>). On
  tick 16 the cookie expires, a cookie is generated again and the snake runs into the
  wall: \<open>crashed_game\<close>.
\<close>

definition crashed_game :: SnakeGame where
  "crashed_game =
     \<lparr>state = GAME_OVER, score = 0, high_score = 0, current_fps = 4,
      snake = game_snake\<lparr>body := [(34, 10), (33, 10), (32, 10)]\<rparr>,
      food = game_food\<lparr>position := Some (5, 4), food_type := ''cookie'', food_value := 20,
                        lifetime := 16, is_expired := True\<rparr>\<rparr>"

text \<open>
  Turning up after tick 14 instead, the game after tick 15 is \<open>last_tick_game\<close>. On tick
  16 the cookie expires and a cookie is generated again while the snake moves on:
  \<open>stale_cookie_game\<close>. One more tick, with random outcomes that pick normal food at
  (5, 5), gives \<open>replaced_game\<close>.
\<close>

definition last_tick_game :: SnakeGame where
  "last_tick_game =
     \<lparr>state = PLAYING, score = 0, high_score = 0, current_fps = 4,
      snake = game_snake\<lparr>body := [(33, 9), (33, 10), (32, 10)], direction := UP,
                          next_direction := UP\<rparr>,
      food = game_food\<lparr>position := Some (5, 4), food_type := ''cookie'', food_value := 20,
                        lifetime := 1\<rparr>\<rparr>"

definition stale_cookie_game :: SnakeGame where
  "stale_cookie_game =
     \<lparr>state = PLAYING, score = 0, high_score = 0, current_fps = 4,
      snake = game_snake\<lparr>body := [(33, 8), (33, 9), (33, 10)], direction := UP,
                          next_direction := UP\<rparr>,
      food = game_food\<lparr>position := Some (5, 4), food_type := ''cookie'', food_value := 20,
                        lifetime := 16, is_expired := True\<rparr>\<rparr>"

definition replaced_game :: SnakeGame where
  "replaced_game =
     \<lparr>state = PLAYING, score = 0, high_score = 0, current_fps = 4,
      snake = game_snake\<lparr>body := [(33, 7), (33, 8), (33, 9)], direction := UP,
                          next_direction := UP\<rparr>,
      food = game_food\<lparr>position := Some (5, 5)\<rparr>\<rparr>"

text \<open>
  The key events and updates of these sessions, from the menu on: \<open>play_to_row_10\<close> ends
  after tick 14, \<open>play_to_crash\<close> after the crash on tick 16, \<open>play_to_stale_cookie\<close>
  after tick 16 of the session that turns up.
\<close>

definition play_to_row_10 :: "input list" where
  "play_to_row_10 =
     [KEYDOWN K_SPACE cookie_draws, KEYDOWN K_UP cookie_draws,
      UPDATE cookie_draws cookie_draws, KEYDOWN K_RIGHT cookie_draws]
     @ replicate 13 (UPDATE cookie_draws cookie_draws)"

definition play_to_crash :: "input list" where
  "play_to_crash = play_to_row_10 @ replicate 2 (UPDATE cookie_draws cookie_draws)"

definition play_to_stale_cookie :: "input list" where
  "play_to_stale_cookie =
     play_to_row_10 @ [KEYDOWN K_UP cookie_draws, UPDATE cookie_draws cookie_draws,
                       UPDATE cookie_draws cookie_draws]"

section \<open>Evaluation lemmas\<close>

lemmas config_defs =
  INITIAL_SNAKE_LENGTH_def INITIAL_SNAKE_POSITION_def INITIAL_FPS_def MAX_FPS_def
  SPEED_INCREASE_INTERVAL_def SPEED_INCREASE_AMOUNT_def NORMAL_FOOD_VALUE_def
  COOKIE_FOOD_VALUE_def COOKIE_SPAWN_CHANCE_def COOKIE_LIFETIME_def
  UP_def DOWN_def LEFT_def RIGHT_def

declare generate_loop.simps [simp del]

lemma initialize_body_eval:
  "initialize_body s = s\<lparr>body := body s @ [(20, 11), (19, 11), (18, 11)]\<rparr>"
  by (simp add: initialize_body_def INITIAL_SNAKE_POSITION_def INITIAL_SNAKE_LENGTH_def
      upt_rec)

lemma snake_reset_eval:
  "snake_reset s = s\<lparr>body := [(20, 11), (19, 11), (18, 11)], direction := RIGHT,
                      next_direction := RIGHT, grow_pending := False\<rparr>"
  by (simp add: snake_reset_def initialize_body_eval)

lemma game_snake_eval:
  "game_snake =
     \<lparr>playable_start_x = 5, playable_start_y = 4, playable_width = 30, playable_height = 15,
      body = [(20, 11), (19, 11), (18, 11)], direction = RIGHT, next_direction = RIGHT,
      grow_pending = False\<rparr>"
  by (simp add: game_snake_def new_snake_def initialize_body_eval)

lemma game_food_eval:
  "game_food =
     \<lparr>playable_start_x = 5, playable_start_y = 4, playable_width = 30, playable_height = 15,
      position = None, food_type = ''normal'', food_value = 10, lifetime = 0,
      is_expired = False\<rparr>"
  by (simp add: game_food_def new_food_def NORMAL_FOOD_VALUE_def)

lemma game_food_area:
  "playable_start_x game_food = 5" "playable_start_y game_food = 4"
  "playable_width game_food = 30" "playable_height game_food = 15"
  by (simp_all add: game_food_def new_food_def)

section \<open>The snake: moving, growing, turning\<close>

lemma move_empty: "body s = [] \<Longrightarrow> move s = Inl IndexError"
  by (simp add: move_def)

lemma move_ok_body: "move s = Inr (ok, s') \<Longrightarrow> body s \<noteq> []"
  by (auto simp add: move_empty)

text \<open>
  The branches of \<open>move\<close> on a snake with a head, in terms of the state before the call.
\<close>

lemma move_cases:
  assumes "body s = (hx, hy) # rest"
  shows "move s =
     (let new_head = (hx + fst (next_direction s), hy + snd (next_direction s)) in
      if \<not> snake_is_valid_position s new_head \<or> new_head \<in> set (body s)
      then Inr (False, s\<lparr>direction := next_direction s\<rparr>)
      else Inr (True, s\<lparr>direction := next_direction s,
                        body := new_head # (if grow_pending s then body s else butlast (body s)),
                        grow_pending := False\<rparr>))"
  using assms by (auto simp add: move_def Let_def snake_is_valid_position_def)

lemma valid_position_grow_pending [simp]:
  "snake_is_valid_position (s\<lparr>grow_pending := x\<rparr>) = snake_is_valid_position s"
  by (simp add: fun_eq_iff snake_is_valid_position_def)

lemma grow_funpow_Suc: "(grow ^^ Suc n) s = s\<lparr>grow_pending := True\<rparr>"
  by (induction n) (simp_all add: grow_def)

lemma grow_funpow: "0 < n \<Longrightarrow> (grow ^^ n) s = s\<lparr>grow_pending := True\<rparr>"
  using grow_funpow_Suc [of "n - 1" s] by simp

text \<open>
  Claim C1. For every snake that has a head, \<open>move\<close> returns a flag and a snake. With
  \<open>new_head\<close> the head cell displaced by \<open>next_direction\<close> (the direction that the call
  applies), the flag is false exactly when \<open>new_head\<close> lies outside the playable bounds or
  is a cell of the body before the call, its last cell included. When the flag is true the
  new body is \<open>new_head\<close> in front of the old body, without the old last cell exactly when
  \<open>grow_pending\<close> was false.
\<close>

theorem C1_move:
  assumes "body s \<noteq> []"
  shows "\<exists>ok s'. move s = Inr (ok, s') \<and>
     (let new_head = (fst (hd (body s)) + fst (next_direction s),
                      snd (hd (body s)) + snd (next_direction s)) in
      (ok = False \<longleftrightarrow>
         (\<not> (playable_start_x s \<le> fst new_head \<and>
             fst new_head < playable_start_x s + playable_width s \<and>
             playable_start_y s \<le> snd new_head \<and>
             snd new_head < playable_start_y s + playable_height s)
          \<or> new_head \<in> set (body s))) \<and>
      (ok \<longrightarrow> body s' = new_head # (if grow_pending s then body s else butlast (body s))))"
proof -
  obtain hx hy rest where b: "body s = (hx, hy) # rest"
    using assms by (cases "body s") auto
  show ?thesis
    unfolding move_cases [OF b]
    by (auto simp add: Let_def b snake_is_valid_position_def)
qed

text \<open>
  Witness for C1: the freshly constructed snake has a head, and its first move succeeds
  and drops the last cell. The coiled snake has a head too, and its move into the cell of
  its own last segment fails.
\<close>

theorem C1_move_witness:
  "body game_snake \<noteq> [] \<and>
   move game_snake = Inr (True, game_snake\<lparr>body := [(21, 11), (20, 11), (19, 11)]\<rparr>) \<and>
   body coiled_snake \<noteq> [] \<and>
   last (body coiled_snake) = (6, 4) \<and>
   move coiled_snake = Inr (False, coiled_snake\<lparr>direction := RIGHT\<rparr>)"
proof -
  have ne: "body game_snake \<noteq> []"
    by (simp add: game_snake_eval)
  have m: "move game_snake = Inr (True, game_snake\<lparr>body := [(21, 11), (20, 11), (19, 11)]\<rparr>)"
    using C1_move [OF ne]
    by (simp add: game_snake_eval move_def snake_is_valid_position_def Let_def RIGHT_def)
  have nc: "body coiled_snake \<noteq> []" and lc: "last (body coiled_snake) = (6, 4)"
    by (simp_all add: coiled_snake_def)
  have c: "move coiled_snake = Inr (False, coiled_snake\<lparr>direction := RIGHT\<rparr>)"
    using C1_move [OF nc]
    by (simp add: coiled_snake_def move_def snake_is_valid_position_def Let_def RIGHT_def)
  from ne m nc lc c show ?thesis by blast
qed

text \<open>
  Claim C2, as stated, fails: a failed \<open>move\<close> has already stored \<open>next_direction\<close> in
  \<open>direction\<close>. On the top row, moving right with a pending turn upwards, the move fails
  at the wall and the direction after the call is \<open>UP\<close>, not \<open>RIGHT\<close>.
\<close>

theorem C2_failed_move_changes_direction:
  "move top_row_turning_up = Inr (False, top_row_turning_up\<lparr>direction := UP\<rparr>) \<and>
   direction (top_row_turning_up\<lparr>direction := UP\<rparr>) \<noteq> direction top_row_turning_up"
  by (simp add: top_row_turning_up_def move_def snake_is_valid_position_def Let_def
      UP_def RIGHT_def)

text \<open>
  Claim C2, amended. When \<open>move\<close> returns false, the body, \<open>next_direction\<close> and
  \<open>grow_pending\<close> are what they were before the call, and \<open>direction\<close> is the
  \<open>next_direction\<close> of before the call; so the whole state is unchanged exactly when the
  two directions already agreed.
\<close>

theorem C2_failed_move:
  assumes "move s = Inr (False, s')"
  shows "s' = s\<lparr>direction := next_direction s\<rparr> \<and> body s' = body s \<and>
         next_direction s' = next_direction s \<and> grow_pending s' = grow_pending s \<and>
         direction s' = next_direction s \<and> (s' = s \<longleftrightarrow> direction s = next_direction s)"
proof -
  obtain hx hy rest where b: "body s = (hx, hy) # rest"
    using assms by (cases "body s") (auto simp add: move_empty)
  have eq: "s' = s\<lparr>direction := next_direction s\<rparr>"
    using assms unfolding move_cases [OF b] by (simp add: Let_def split: if_splits)
  have "(s\<lparr>direction := next_direction s\<rparr> = s) = (direction s = next_direction s)"
    by (cases s) auto
  with eq show ?thesis by simp
qed

text \<open>Witness for the amended C2, at the same snake on the top row.\<close>

theorem C2_failed_move_witness:
  "move top_row_turning_up = Inr (False, top_row_turning_up\<lparr>direction := UP\<rparr>) \<and>
   body (top_row_turning_up\<lparr>direction := UP\<rparr>) = body top_row_turning_up \<and>
   direction top_row_turning_up \<noteq> next_direction top_row_turning_up"
proof -
  have m: "move top_row_turning_up = Inr (False, top_row_turning_up\<lparr>direction := UP\<rparr>)"
    by (simp add: top_row_turning_up_def move_def snake_is_valid_position_def Let_def
        UP_def RIGHT_def)
  from C2_failed_move [OF m] m show ?thesis
    by (simp add: top_row_turning_up_def UP_def RIGHT_def)
qed

text \<open>
  Claim C5. From every snake whose next \<open>move\<close> succeeds, \<open>move\<close> after one call of
  \<open>grow\<close> and \<open>move\<close> after any number \<open>n \<ge> 1\<close> of calls of \<open>grow\<close> give the same
  result: the move succeeds and the body is one cell longer. Compared with the move of the
  same snake without pending growth, the body is that move's body followed by the old last
  cell, and \<open>direction\<close>, \<open>next_direction\<close> and \<open>grow_pending\<close> are the same.
\<close>

theorem C5_grow_idempotent:
  assumes "move s = Inr (True, s')" and "0 < n"
  shows "\<exists>sg sn. move ((grow ^^ n) s) = Inr (True, sg) \<and>
           move (grow s) = Inr (True, sg) \<and>
           move (s\<lparr>grow_pending := False\<rparr>) = Inr (True, sn) \<and>
           length (body sg) = length (body s) + 1 \<and>
           length (body sn) = length (body s) \<and>
           body sg = body sn @ [last (body s)] \<and>
           direction sg = direction sn \<and>
           next_direction sg = next_direction sn \<and>
           grow_pending sg = grow_pending sn"
proof -
  obtain hx hy rest where b: "body s = (hx, hy) # rest"
    using move_ok_body [OF assms(1)] by (cases "body s") auto
  let ?h = "(hx + fst (next_direction s), hy + snd (next_direction s))"
  have free: "snake_is_valid_position s ?h" "?h \<notin> set (body s)"
    using assms(1) unfolding move_cases [OF b] by (auto simp add: Let_def split: if_splits)
  have g: "(grow ^^ n) s = grow s"
    using assms(2) by (simp add: grow_funpow grow_def)
  have bg: "body (grow s) = (hx, hy) # rest"
    by (simp add: grow_def b)
  have bn: "body (s\<lparr>grow_pending := False\<rparr>) = (hx, hy) # rest"
    by (simp add: b)
  have mg: "move (grow s) = Inr (True, s\<lparr>direction := next_direction s,
              body := ?h # body s, grow_pending := False\<rparr>)"
    unfolding move_cases [OF bg] using free by (simp add: Let_def grow_def b)
  have mn: "move (s\<lparr>grow_pending := False\<rparr>) = Inr (True, s\<lparr>direction := next_direction s,
              body := ?h # butlast (body s), grow_pending := False\<rparr>)"
    unfolding move_cases [OF bn] using free by (simp add: Let_def b)
  have "body s = butlast (body s) @ [last (body s)]"
    by (simp add: b)
  then have app: "?h # body s = (?h # butlast (body s)) @ [last (body s)]"
    by simp
  show ?thesis
    unfolding g mg mn using app by (simp add: b)
qed

text \<open>
  Witness for C5: the fresh snake moves successfully; after two calls of \<open>grow\<close> its move
  keeps the last cell (18, 11), and one call of \<open>grow\<close> gives the same result.
\<close>

theorem C5_grow_idempotent_witness:
  "move game_snake = Inr (True, game_snake\<lparr>body := [(21, 11), (20, 11), (19, 11)]\<rparr>) \<and>
   (0::nat) < 2 \<and>
   move ((grow ^^ 2) game_snake) =
     Inr (True, game_snake\<lparr>body := [(21, 11), (20, 11), (19, 11), (18, 11)]\<rparr>) \<and>
   move (grow game_snake) = move ((grow ^^ 2) game_snake)"
proof -
  have m: "move game_snake = Inr (True, game_snake\<lparr>body := [(21, 11), (20, 11), (19, 11)]\<rparr>)"
    by (simp add: game_snake_eval move_def snake_is_valid_position_def Let_def RIGHT_def)
  have n: "(0::nat) < 2"
    by simp
  have g: "move ((grow ^^ 2) game_snake) =
     Inr (True, game_snake\<lparr>body := [(21, 11), (20, 11), (19, 11), (18, 11)]\<rparr>)"
    by (simp add: numeral_2_eq_2 grow_def game_snake_eval move_def snake_is_valid_position_def
        Let_def RIGHT_def)
  from C5_grow_idempotent [OF m n] have "move (grow game_snake) = move ((grow ^^ 2) game_snake)"
    by auto
  with m n g show ?thesis by blast
qed

text \<open>
  Claim C7. \<open>update_direction\<close> has no error path. When the body has more than one cell
  and the requested direction is the current \<open>direction\<close> with both components negated,
  the snake is unchanged. When the requested direction is anything else, or the body has
  exactly one cell, \<open>next_direction\<close> becomes the requested direction and nothing else
  changes.
\<close>

theorem C7_update_direction:
  "(length (body s) > 1 \<and> d = (- fst (direction s), - snd (direction s))
      \<longrightarrow> update_direction s d = s) \<and>
   (d \<noteq> (- fst (direction s), - snd (direction s)) \<or> length (body s) = 1
      \<longrightarrow> update_direction s d = s\<lparr>next_direction := d\<rparr>)"
  by (auto simp add: update_direction_def)

text \<open>
  Witness for C7: on the fresh snake (three cells, moving right) a request for \<open>LEFT\<close> is
  dropped and a request for \<open>UP\<close> is recorded; on a one-cell snake \<open>LEFT\<close> is recorded.
\<close>

theorem C7_update_direction_witness:
  "length (body game_snake) > 1 \<and>
   LEFT = (- fst (direction game_snake), - snd (direction game_snake)) \<and>
   update_direction game_snake LEFT = game_snake \<and>
   UP \<noteq> (- fst (direction game_snake), - snd (direction game_snake)) \<and>
   update_direction game_snake UP = game_snake\<lparr>next_direction := UP\<rparr> \<and>
   length (body (game_snake\<lparr>body := [(20, 11)]\<rparr>)) = 1 \<and>
   update_direction (game_snake\<lparr>body := [(20, 11)]\<rparr>) LEFT =
     game_snake\<lparr>body := [(20, 11)], next_direction := LEFT\<rparr>"
proof -
  have l: "length (body game_snake) > 1"
    and o: "LEFT = (- fst (direction game_snake), - snd (direction game_snake))"
    and u: "UP \<noteq> (- fst (direction game_snake), - snd (direction game_snake))"
    and one: "length (body (game_snake\<lparr>body := [(20, 11)]\<rparr>)) = 1"
    by (simp_all add: game_snake_eval LEFT_def RIGHT_def UP_def)
  have a: "update_direction game_snake LEFT = game_snake"
    using C7_update_direction [where s = game_snake and d = LEFT] l o by blast
  have b: "update_direction game_snake UP = game_snake\<lparr>next_direction := UP\<rparr>"
    using C7_update_direction [where s = game_snake and d = UP] u by blast
  have c: "update_direction (game_snake\<lparr>body := [(20, 11)]\<rparr>) LEFT =
     game_snake\<lparr>body := [(20, 11)], next_direction := LEFT\<rparr>"
    using C7_update_direction [where s = "game_snake\<lparr>body := [(20, 11)]\<rparr>" and d = LEFT] one
    by blast
  from l o u one a b c show ?thesis by blast
qed

section \<open>The tick rate\<close>

lemma update_speed_fps:
  "current_fps (update_speed g) = min (4 + score g div 30) 15"
  by (simp add: update_speed_def Let_def config_defs)

text \<open>
  Claim C3. \<open>update_speed\<close> replaces \<open>current_fps\<close> by the value of the specification's
  formula at the score, with the configured initial rate 4, interval 30, increment 1 and
  maximum 15, whatever the rate was before. The new rate is monotonic non-decreasing in
  the score and never exceeds the maximum. Score 29 gives 4, score 30 gives 5 and score 450
  gives 15.
\<close>

theorem C3_update_speed:
  assumes "score g1 \<le> score g2"
  shows "update_speed g =
           g\<lparr>current_fps := tick_rate_formula INITIAL_FPS SPEED_INCREASE_INTERVAL
                                SPEED_INCREASE_AMOUNT MAX_FPS (score g)\<rparr> \<and>
         current_fps (update_speed g1) \<le> current_fps (update_speed g2) \<and>
         current_fps (update_speed g) \<le> MAX_FPS \<and>
         INITIAL_FPS = 4 \<and> SPEED_INCREASE_INTERVAL = 30 \<and> SPEED_INCREASE_AMOUNT = 1 \<and>
         MAX_FPS = 15 \<and>
         current_fps (update_speed (g\<lparr>score := 29\<rparr>)) = 4 \<and>
         current_fps (update_speed (g\<lparr>score := 30\<rparr>)) = 5 \<and>
         current_fps (update_speed (g\<lparr>score := 450\<rparr>)) = 15"
proof -
  have formula: "update_speed g =
           g\<lparr>current_fps := tick_rate_formula INITIAL_FPS SPEED_INCREASE_INTERVAL
                                SPEED_INCREASE_AMOUNT MAX_FPS (score g)\<rparr>"
    by (simp add: update_speed_def tick_rate_formula_def Let_def floor_divide_of_int_eq)
  have "score g1 div 30 \<le> score g2 div 30"
    using assms by (simp add: zdiv_mono1)
  then have mono: "current_fps (update_speed g1) \<le> current_fps (update_speed g2)"
    by (simp add: update_speed_fps)
  have capped: "current_fps (update_speed g) \<le> MAX_FPS"
    by (simp add: update_speed_fps MAX_FPS_def)
  show ?thesis
    using formula mono capped by (simp add: update_speed_fps) (simp add: config_defs)
qed

text \<open>Witness for C3: scores 10 and 100 give the rates 4 and 7.\<close>

theorem C3_update_speed_witness:
  "score (fresh_menu\<lparr>score := 10\<rparr>) \<le> score (fresh_menu\<lparr>score := 100\<rparr>) \<and>
   current_fps (update_speed (fresh_menu\<lparr>score := 10\<rparr>)) = 4 \<and>
   current_fps (update_speed (fresh_menu\<lparr>score := 100\<rparr>)) = 7 \<and>
   current_fps (update_speed (fresh_menu\<lparr>score := 10\<rparr>))
     \<le> current_fps (update_speed (fresh_menu\<lparr>score := 100\<rparr>))"
proof -
  have le: "score (fresh_menu\<lparr>score := 10\<rparr>) \<le> score (fresh_menu\<lparr>score := 100\<rparr>)"
    by simp
  have m: "current_fps (update_speed (fresh_menu\<lparr>score := 10\<rparr>))
             \<le> current_fps (update_speed (fresh_menu\<lparr>score := 100\<rparr>))"
    using C3_update_speed [OF le, where g = fresh_menu] by blast
  have v: "current_fps (update_speed (fresh_menu\<lparr>score := 10\<rparr>)) = 4"
    "current_fps (update_speed (fresh_menu\<lparr>score := 100\<rparr>)) = 7"
    by (simp_all add: update_speed_fps)
  from le m v show ?thesis by blast
qed

section \<open>The food: generation\<close>

text \<open>
  On a playable area of positive width and height the two \<open>randint\<close> calls succeed, and
  the drawn cell is inside the area.
\<close>

lemma get_random_position_ok:
  assumes "0 < playable_width F" and "0 < playable_height F"
  shows "get_random_position F ex r =
           Inr (playable_start_x F + int (fst r) mod playable_width F,
                playable_start_y F + int (snd r) mod playable_height F)"
  using assms by (simp add: get_random_position_def randint_def)

lemma get_random_position_valid:
  assumes "get_random_position F ex r = Inr q"
  shows "food_is_valid_position F q"
proof -
  have w: "0 < playable_width F"
    using assms by (auto simp add: get_random_position_def randint_def split: if_splits)
  have h: "0 < playable_height F"
    using assms by (auto simp add: get_random_position_def randint_def split: if_splits sum.splits)
  have "q = (playable_start_x F + int (fst r) mod playable_width F,
             playable_start_y F + int (snd r) mod playable_height F)"
    using assms get_random_position_ok [OF w h, of ex r] by simp
  then show ?thesis
    using w h by (simp add: food_is_valid_position_def)
qed

text \<open>One iteration of the loop of \<open>generate\<close>, case by case.\<close>

lemma generate_loop_done:
  "\<not> a < max_attempts \<Longrightarrow> generate_loop F ex c a = Inr None"
  by (simp add: generate_loop.simps [of F ex c a])

lemma generate_loop_raise:
  "a < max_attempts \<Longrightarrow> get_random_position F ex (c a) = Inl e \<Longrightarrow>
   generate_loop F ex c a = Inl e"
  by (simp add: generate_loop.simps [of F ex c a])

lemma generate_loop_hit:
  "a < max_attempts \<Longrightarrow> get_random_position F ex (c a) = Inr q \<Longrightarrow>
   food_is_valid_position F q \<Longrightarrow> q \<notin> set ex \<Longrightarrow>
   generate_loop F ex c a = Inr (Some q)"
  by (simp add: generate_loop.simps [of F ex c a])

lemma generate_loop_miss:
  "a < max_attempts \<Longrightarrow> get_random_position F ex (c a) = Inr q \<Longrightarrow>
   \<not> (food_is_valid_position F q \<and> q \<notin> set ex) \<Longrightarrow>
   generate_loop F ex c a = generate_loop F ex c (a + 1)"
  by (auto simp add: generate_loop.simps [of F ex c a])

text \<open>
  What the loop returns: a position it returns was drawn at some attempt, is inside the
  area and is not excluded; it runs out of attempts exactly when every drawn cell is
  excluded; on a non-empty area it raises nothing.
\<close>

lemma generate_loop_Some:
  "generate_loop F ex c a = Inr (Some p) \<Longrightarrow>
     food_is_valid_position F p \<and> p \<notin> set ex \<and>
     (\<exists>i. a \<le> i \<and> i < max_attempts \<and> get_random_position F ex (c i) = Inr p)"
proof (induction F ex c a rule: generate_loop.induct)
  case (1 F ex c a)
  show ?case
  proof (cases "a < max_attempts")
    case False
    with "1.prems" show ?thesis by (simp add: generate_loop_done)
  next
    case True
    show ?thesis
    proof (cases "get_random_position F ex (c a)")
      case (Inl e)
      with True "1.prems" show ?thesis by (simp add: generate_loop_raise)
    next
      case (Inr q)
      show ?thesis
      proof (cases "food_is_valid_position F q \<and> q \<notin> set ex")
        case hit: True
        with True Inr "1.prems" have "p = q"
          by (simp add: generate_loop_hit)
        with hit True Inr show ?thesis by auto
      next
        case miss: False
        have "generate_loop F ex c (a + 1) = Inr (Some p)"
          using generate_loop_miss [where c = c and a = a, OF True Inr miss] "1.prems" by simp
        from "1.IH" [OF True Inr miss this] show ?thesis
          by (metis Suc_eq_plus1 Suc_leD)
      qed
    qed
  qed
qed

lemma generate_loop_exhausted:
  "(\<And>i. a \<le> i \<Longrightarrow> i < max_attempts \<Longrightarrow>
        \<exists>q. get_random_position F ex (c i) = Inr q \<and> q \<in> set ex) \<Longrightarrow>
   generate_loop F ex c a = Inr None"
proof (induction F ex c a rule: generate_loop.induct)
  case (1 F ex c a)
  show ?case
  proof (cases "a < max_attempts")
    case False
    then show ?thesis by (simp add: generate_loop_done)
  next
    case True
    obtain q where q: "get_random_position F ex (c a) = Inr q" "q \<in> set ex"
      using "1.prems" [of a] True by auto
    have miss: "\<not> (food_is_valid_position F q \<and> q \<notin> set ex)"
      using q by simp
    have "generate_loop F ex c (a + 1) = Inr None"
      using "1.IH" [OF True q(1) miss] "1.prems" by simp
    then show ?thesis
      using generate_loop_miss [where c = c and a = a, OF True q(1) miss] by simp
  qed
qed

lemma generate_loop_total:
  assumes "0 < playable_width F" and "0 < playable_height F"
  shows "\<exists>r. generate_loop F ex c a = Inr r"
  using assms
proof (induction F ex c a rule: generate_loop.induct)
  case (1 F ex c a)
  note pos = "1.prems"
  show ?case
  proof (cases "a < max_attempts")
    case False
    then show ?thesis by (simp add: generate_loop_done)
  next
    case True
    obtain q where q: "get_random_position F ex (c a) = Inr q"
      using get_random_position_ok [OF pos] by blast
    show ?thesis
    proof (cases "food_is_valid_position F q \<and> q \<notin> set ex")
      case hit: True
      with True q show ?thesis by (simp add: generate_loop_hit)
    next
      case miss: False
      from "1.IH" [OF True q miss pos] show ?thesis
        using generate_loop_miss [where c = c and a = a, OF True q miss] by simp
    qed
  qed
qed

lemma generate_loop_None:
  assumes "generate_loop F ex c a = Inr None"
    and "a \<le> i" and "i < max_attempts"
  shows "\<exists>q. get_random_position F ex (c i) = Inr q \<and> q \<in> set ex"
  using assms
proof (induction F ex c a rule: generate_loop.induct)
  case (1 F ex c a)
  have lt: "a < max_attempts"
    using "1.prems" by simp
  obtain q where q: "get_random_position F ex (c a) = Inr q"
    using "1.prems"(1) lt by (cases "get_random_position F ex (c a)") (simp_all add: generate_loop_raise)
  have v: "food_is_valid_position F q"
    using get_random_position_valid [OF q] .
  have miss: "\<not> (food_is_valid_position F q \<and> q \<notin> set ex)"
    using "1.prems"(1) generate_loop_hit [where c = c and a = a, OF lt q] by auto
  have rest: "generate_loop F ex c (a + 1) = Inr None"
    using "1.prems"(1) generate_loop_miss [where c = c and a = a, OF lt q miss] by simp
  show ?case
  proof (cases "i = a")
    case True
    with q v miss show ?thesis by auto
  next
    case False
    with "1.prems" have "a + 1 \<le> i" by simp
    from "1.IH" [OF lt q miss rest this "1.prems"(3)] show ?thesis .
  qed
qed

text \<open>
  The loop reads the playable area of the food only, so \<open>generate\<close> may be unfolded with
  the loop running on the food of before the call.
\<close>

lemma generate_loop_area:
  "playable_start_x F = playable_start_x G \<Longrightarrow> playable_start_y F = playable_start_y G \<Longrightarrow>
   playable_width F = playable_width G \<Longrightarrow> playable_height F = playable_height G \<Longrightarrow>
   generate_loop F ex c a = generate_loop G ex c a"
proof (induction F ex c a rule: generate_loop.induct)
  case (1 F ex c a)
  have g: "get_random_position F ex (c a) = get_random_position G ex (c a)"
    using "1.prems" by (auto simp add: get_random_position_def split: sum.splits)
  have v: "food_is_valid_position F = food_is_valid_position G"
    using "1.prems" by (simp add: fun_eq_iff food_is_valid_position_def)
  show ?case
  proof (cases "a < max_attempts")
    case False
    then show ?thesis
      by (simp add: generate_loop_done)
  next
    case True
    show ?thesis
    proof (cases "get_random_position F ex (c a)")
      case (Inl e)
      then have "get_random_position G ex (c a) = Inl e"
        using g by simp
      with True Inl show ?thesis
        by (simp add: generate_loop_raise)
    next
      case (Inr q)
      then have qG: "get_random_position G ex (c a) = Inr q"
        using g by simp
      show ?thesis
      proof (cases "food_is_valid_position F q \<and> q \<notin> set ex")
        case hit: True
        with True Inr qG v show ?thesis
          by (simp add: generate_loop_hit)
      next
        case miss: False
        then have missG: "\<not> (food_is_valid_position G q \<and> q \<notin> set ex)"
          using v by simp
        show ?thesis
          using "1.IH" [OF True Inr miss "1.prems"]
            generate_loop_miss [where c = c and a = a, OF True Inr miss] generate_loop_miss [where c = c and a = a, OF True qG missG]
          by simp
      qed
    qed
  qed
qed

lemma generate_loop_retyped:
  "generate_loop (F\<lparr>food_type := ty, food_value := v, lifetime := l\<rparr>) ex c a =
     generate_loop F ex c a"
  "generate_loop (F\<lparr>food_type := ty, food_value := v, lifetime := l, is_expired := b\<rparr>) ex c a =
     generate_loop F ex c a"
  by (rule generate_loop_area; simp)+

lemma generate_cases:
  "generate F exo fps d =
     (let F1 = (if roll d < COOKIE_SPAWN_CHANCE
                then F\<lparr>food_type := ''cookie'', food_value := COOKIE_FOOD_VALUE,
                       lifetime := COOKIE_LIFETIME * fps\<rparr>
                else F\<lparr>food_type := ''normal'', food_value := NORMAL_FOOD_VALUE,
                       lifetime := 0, is_expired := False\<rparr>)
      in case generate_loop F (case exo of None \<Rightarrow> [] | Some e \<Rightarrow> e) (cells d) 0 of
           Inl e \<Rightarrow> Inl e
         | Inr (Some p) \<Rightarrow> Inr (p, F1\<lparr>position := Some p\<rparr>)
         | Inr None \<Rightarrow> Inr ((5, 5), F1\<lparr>position := Some (5, 5)\<rparr>))"
  by (simp add: generate_def Let_def generate_loop_retyped)

lemma generate_returns:
  assumes "0 < playable_width F" and "0 < playable_height F"
  shows "\<exists>p F'. generate F exo fps d = Inr (p, F') \<and> position F' = Some p"
proof -
  obtain r where "generate_loop F (case exo of None \<Rightarrow> [] | Some e \<Rightarrow> e) (cells d) 0 = Inr r"
    using generate_loop_total [OF assms] by blast
  then show ?thesis
    by (cases r) (simp_all add: generate_cases Let_def)
qed

lemma generate_position:
  assumes "generate F exo fps d = Inr (p, F')"
  shows "generate_loop F (case exo of None \<Rightarrow> [] | Some e \<Rightarrow> e) (cells d) 0 = Inr (Some p) \<or>
         generate_loop F (case exo of None \<Rightarrow> [] | Some e \<Rightarrow> e) (cells d) 0 = Inr None \<and> p = (5, 5)"
  using assms by (auto simp add: generate_cases Let_def split: sum.splits option.splits)

lemma stuck_loop:
  "generate_loop game_food [(5, 5)] (cells stuck_draws) 0 = Inr None"
proof (rule generate_loop_exhausted)
  fix i :: nat
  show "\<exists>q. get_random_position game_food [(5, 5)] (cells stuck_draws i) = Inr q \<and>
            q \<in> set [(5, 5)]"
    by (simp add: get_random_position_def randint_def game_food_area stuck_draws_def)
qed

lemma second_try_loop:
  "generate_loop game_food [(5, 4)] (cells second_try_draws) 0 = Inr (Some (6, 4))"
proof -
  have g0: "get_random_position game_food [(5, 4)] (cells second_try_draws 0) = Inr (5, 4)"
    by (simp add: get_random_position_def randint_def game_food_area second_try_draws_def)
  have g1: "get_random_position game_food [(5, 4)] (cells second_try_draws (Suc 0)) = Inr (6, 4)"
    by (simp add: get_random_position_def randint_def game_food_area second_try_draws_def)
  have "generate_loop game_food [(5, 4)] (cells second_try_draws) 0 =
        generate_loop game_food [(5, 4)] (cells second_try_draws) (0 + 1)"
    by (rule generate_loop_miss [where q = "(5, 4)"]) (simp_all add: max_attempts_def g0)
  also have "\<dots> = Inr (Some (6, 4))"
    by (rule generate_loop_hit [where c = "cells second_try_draws" and a = "0 + 1"])
      (simp_all add: max_attempts_def g1 food_is_valid_position_def game_food_area)
  finally show ?thesis .
qed

lemma cookie_loop_empty:
  "playable_start_x F = 5 \<Longrightarrow> playable_start_y F = 4 \<Longrightarrow> playable_width F = 30 \<Longrightarrow>
   playable_height F = 15 \<Longrightarrow> (5, 4) \<notin> set ex \<Longrightarrow>
   generate_loop F ex (cells cookie_draws) 0 = Inr (Some (5, 4))"
  by (rule generate_loop_hit [where c = "cells cookie_draws" and a = 0])
    (simp_all add: max_attempts_def get_random_position_def randint_def cookie_draws_def
      food_is_valid_position_def)

text \<open>
  Claim C4, as stated, fails: with the cell (5, 5) excluded and every random draw hitting
  (5, 5), all 1000 attempts are used up and \<open>generate\<close> falls back to (5, 5), an excluded
  cell, although other cells of the playable area such as (6, 5) are free.
\<close>

theorem C4_fallback_excluded:
  "generate game_food (Some [(5, 5)]) 10 stuck_draws =
     Inr ((5, 5), game_food\<lparr>position := Some (5, 5)\<rparr>) \<and>
   (5, 5) \<in> set [(5, 5) :: position] \<and>
   food_is_valid_position game_food (6, 5) \<and> (6, 5) \<notin> set [(5, 5) :: position]"
  by (simp add: generate_cases stuck_loop Let_def)
    (simp add: stuck_draws_def COOKIE_SPAWN_CHANCE_def game_food_def new_food_def
      food_is_valid_position_def)

text \<open>
  Claim C4, amended. On a playable area of positive width and height, for every excluded
  list and every outcome of the random draws, \<open>generate\<close> returns a position \<open>p\<close> and
  stores it as the food's position. If one of the 1000 drawn cells is not excluded, \<open>p\<close>
  is not excluded and lies inside the playable bounds. If all 1000 drawn cells are
  excluded, \<open>p\<close> is the fallback cell (5, 5). Whenever (5, 5) lies inside the playable
  bounds, as it does in the game, \<open>p\<close> lies inside the playable bounds.
\<close>

theorem C4_generate_position:
  assumes "0 < playable_width F" and "0 < playable_height F"
  shows "\<exists>p F'. generate F exo fps d = Inr (p, F') \<and> position F' = Some p \<and>
     (let excl = (case exo of None \<Rightarrow> [] | Some e \<Rightarrow> e);
          inside = (\<lambda>q. playable_start_x F \<le> fst q \<and> fst q < playable_start_x F + playable_width F \<and>
                         playable_start_y F \<le> snd q \<and> snd q < playable_start_y F + playable_height F)
      in ((\<exists>i<1000. \<exists>q. get_random_position F excl (cells d i) = Inr q \<and> q \<notin> set excl)
            \<longrightarrow> p \<notin> set excl \<and> inside p) \<and>
         ((\<forall>i<1000. \<exists>q. get_random_position F excl (cells d i) = Inr q \<and> q \<in> set excl)
            \<longrightarrow> p = (5, 5)) \<and>
         (inside (5, 5) \<longrightarrow> inside p))"
proof -
  define excl where "excl = (case exo of None \<Rightarrow> [] | Some e \<Rightarrow> e)"
  obtain p F' where g: "generate F exo fps d = Inr (p, F')" and pos: "position F' = Some p"
    using generate_returns [OF assms] by blast
  have valid_iff: "food_is_valid_position F q \<longleftrightarrow>
      (playable_start_x F \<le> fst q \<and> fst q < playable_start_x F + playable_width F \<and>
       playable_start_y F \<le> snd q \<and> snd q < playable_start_y F + playable_height F)" for q
    by (cases q) (simp add: food_is_valid_position_def)
  have loop: "generate_loop F excl (cells d) 0 = Inr (Some p) \<or>
              generate_loop F excl (cells d) 0 = Inr None \<and> p = (5, 5)"
    using generate_position [OF g] by (simp add: excl_def)
  from loop have
    "((\<exists>i<1000. \<exists>q. get_random_position F excl (cells d i) = Inr q \<and> q \<notin> set excl)
            \<longrightarrow> p \<notin> set excl \<and> food_is_valid_position F p) \<and>
     ((\<forall>i<1000. \<exists>q. get_random_position F excl (cells d i) = Inr q \<and> q \<in> set excl)
            \<longrightarrow> p = (5, 5)) \<and>
     (food_is_valid_position F (5, 5) \<longrightarrow> food_is_valid_position F p)"
  proof
    assume some: "generate_loop F excl (cells d) 0 = Inr (Some p)"
    from generate_loop_Some [OF some] obtain i where
      i: "food_is_valid_position F p" "p \<notin> set excl" "i < max_attempts"
         "get_random_position F excl (cells d i) = Inr p"
      by blast
    have "\<not> (\<forall>i<1000. \<exists>q. get_random_position F excl (cells d i) = Inr q \<and> q \<in> set excl)"
      using i by (auto simp add: max_attempts_def)
    with i show ?thesis by blast
  next
    assume none: "generate_loop F excl (cells d) 0 = Inr None \<and> p = (5, 5)"
    have "\<not> (\<exists>i<1000. \<exists>q. get_random_position F excl (cells d i) = Inr q \<and> q \<notin> set excl)"
    proof
      assume "\<exists>i<1000. \<exists>q. get_random_position F excl (cells d i) = Inr q \<and> q \<notin> set excl"
      then obtain i q where iq: "i < 1000" "get_random_position F excl (cells d i) = Inr q"
        "q \<notin> set excl" by blast
      from generate_loop_None [of F excl "cells d" 0 i] none iq(1)
      obtain q' where "get_random_position F excl (cells d i) = Inr q'" "q' \<in> set excl"
        by (auto simp add: max_attempts_def)
      with iq show False by simp
    qed
    with none show ?thesis by blast
  qed
  with g pos show ?thesis
    by (simp add: Let_def valid_iff excl_def)
qed

text \<open>
  Witness for the amended C4: on the game's area with (5, 4) excluded, the first draw hits
  (5, 4), the second draw gives the free cell (6, 4), which is returned.
\<close>

theorem C4_generate_position_witness:
  "0 < playable_width game_food \<and> 0 < playable_height game_food \<and>
   get_random_position game_food [(5, 4)] (cells second_try_draws 1) = Inr (6, 4) \<and>
   generate game_food (Some [(5, 4)]) 10 second_try_draws =
     Inr ((6, 4), game_food\<lparr>position := Some (6, 4)\<rparr>) \<and>
   (6, 4) \<notin> set [(5, 4) :: position]"
proof -
  have w: "0 < playable_width game_food" and h: "0 < playable_height game_food"
    by (simp_all add: game_food_area)
  have g1: "get_random_position game_food [(5, 4)] (cells second_try_draws 1) = Inr (6, 4)"
    by (simp add: get_random_position_def randint_def game_food_area second_try_draws_def)
  have gen: "generate game_food (Some [(5, 4)]) 10 second_try_draws =
     Inr ((6, 4), game_food\<lparr>position := Some (6, 4)\<rparr>)"
    by (simp add: generate_cases second_try_loop Let_def)
      (simp add: second_try_draws_def COOKIE_SPAWN_CHANCE_def game_food_def new_food_def)
  from C4_generate_position [OF w h, of "Some [(5, 4)]" 10 second_try_draws] gen g1
  have "(6, 4) \<notin> set [(5, 4) :: position]"
    by (auto simp add: Let_def)
  with w h g1 gen show ?thesis by simp
qed

text \<open>
  Claim C10 says that the food is live after every \<open>generate\<close>: \<open>is_expired\<close> false and the
  position set. The code breaks this: only the branch for normal food clears
  \<open>is_expired\<close>. From an expired cookie, with random outcomes that pick a cookie again,
  \<open>generate\<close> returns the cell (5, 4) and sets the position and the lifetime 40, and
  \<open>is_expired\<close> is still true.
\<close>

theorem C10_cookie_keeps_expired_flag:
  "generate expired_cookie (Some []) 10 cookie_draws =
     Inr ((5, 4), expired_cookie\<lparr>lifetime := 40, position := Some (5, 4)\<rparr>) \<and>
   is_expired (expired_cookie\<lparr>lifetime := 40, position := Some (5, 4)\<rparr>) = True"
proof -
  have "generate_loop expired_cookie [] (cells cookie_draws) 0 = Inr (Some (5, 4))"
    by (rule cookie_loop_empty) (simp_all add: expired_cookie_def)
  then show ?thesis
    by (simp add: generate_cases Let_def)
      (simp add: cookie_draws_def expired_cookie_def config_defs)
qed

section \<open>The food: expiry\<close>

lemma update_not_cookie: "food_type N \<noteq> ''cookie'' \<Longrightarrow> update N = N"
  by (simp add: update_def)

lemma update_spent: "lifetime F \<le> 0 \<Longrightarrow> update F = F"
  by (simp add: update_def)

lemma update_cookie_step:
  "food_type F = ''cookie'' \<Longrightarrow> 1 < lifetime F \<Longrightarrow> update F = F\<lparr>lifetime := lifetime F - 1\<rparr>"
  by (simp add: update_def Let_def)

lemma update_cookie_last:
  "food_type F = ''cookie'' \<Longrightarrow> lifetime F = 1 \<Longrightarrow>
   update F = F\<lparr>lifetime := 0, is_expired := True, position := None\<rparr>"
  by (simp add: update_def Let_def)

lemma update_funpow_running:
  "food_type F = ''cookie'' \<Longrightarrow> int k < lifetime F \<Longrightarrow>
   (update ^^ k) F = F\<lparr>lifetime := lifetime F - int k\<rparr>"
proof (induction k)
  case 0
  then show ?case by simp
next
  case (Suc k)
  then have "(update ^^ k) F = F\<lparr>lifetime := lifetime F - int k\<rparr>"
    by simp
  moreover have "update (F\<lparr>lifetime := lifetime F - int k\<rparr>) =
                 F\<lparr>lifetime := lifetime F - int k - 1\<rparr>"
    using Suc.prems by (simp add: update_cookie_step)
  ultimately show ?case
    by (simp add: algebra_simps)
qed

lemma update_funpow_expired:
  assumes "food_type F = ''cookie''" and "0 < lifetime F"
  shows "(update ^^ nat (lifetime F)) F = F\<lparr>lifetime := 0, is_expired := True, position := None\<rparr>"
proof -
  obtain k where k: "nat (lifetime F) = Suc k"
    using assms(2) by (cases "nat (lifetime F)") auto
  then have lk: "lifetime F = int k + 1"
    using assms(2) by linarith
  have "(update ^^ k) F = F\<lparr>lifetime := lifetime F - int k\<rparr>"
    using assms(1) lk by (simp add: update_funpow_running)
  then have "(update ^^ Suc k) F = update (F\<lparr>lifetime := 1\<rparr>)"
    using lk by simp
  also have "\<dots> = F\<lparr>lifetime := 0, is_expired := True, position := None\<rparr>"
    using assms(1) by (simp add: update_cookie_last)
  finally show ?thesis
    using k by simp
qed

text \<open>The food that \<open>generate\<close> leaves when the random outcome picks a cookie.\<close>

lemma generate_cookie:
  assumes "generate F exo r d = Inr (p, C)" and "roll d < COOKIE_SPAWN_CHANCE"
  shows "C = F\<lparr>food_type := ''cookie'', food_value := COOKIE_FOOD_VALUE,
               lifetime := COOKIE_LIFETIME * r, position := Some p\<rparr>"
  using assms by (auto simp add: generate_cases Let_def split: sum.splits option.splits)

text \<open>
  A simulation step whose call of \<open>update\<close> leaves the food expired generates new food
  before the snake moves.
\<close>

lemma update_game_respawn:
  assumes "is_expired (update (food g))"
  shows "update_game g d1 d2 =
           (case generate_food (g\<lparr>food := update (food g)\<rparr>) d1 of
              Inl e \<Rightarrow> Inl e
            | Inr g2 \<Rightarrow> move_snake_and_eat g2 d2)"
  using assms by (simp add: update_game_def Let_def)

lemma cookie_generate_game_food:
  "(5, 4) \<notin> set ex \<Longrightarrow>
   generate (game_food\<lparr>position := pos, food_type := ty, food_value := v, lifetime := l,
                        is_expired := b\<rparr>) (Some ex) fps cookie_draws =
     Inr ((5, 4), game_food\<lparr>position := Some (5, 4), food_type := ''cookie'', food_value := 20,
                             lifetime := 4 * fps, is_expired := b\<rparr>)"
proof -
  assume "(5, 4) \<notin> set ex"
  then have "generate_loop (game_food\<lparr>position := pos, food_type := ty, food_value := v,
               lifetime := l, is_expired := b\<rparr>) ex (cells cookie_draws) 0 = Inr (Some (5, 4))"
    by (intro cookie_loop_empty) (simp_all add: game_food_area)
  then show ?thesis
    by (simp add: generate_cases Let_def)
      (simp add: cookie_draws_def config_defs game_food_def new_food_def)
qed

lemma update_game_no_respawn:
  assumes "\<not> is_expired (update (food g))"
  shows "update_game g d1 d2 = move_snake_and_eat (g\<lparr>food := update (food g)\<rparr>) d2"
  using assms by (simp add: update_game_def Let_def)

lemma stuck_generate_game_food:
  "(5, 5) \<notin> set ex \<Longrightarrow>
   generate (game_food\<lparr>position := pos, food_type := ty, food_value := v, lifetime := l,
                        is_expired := b\<rparr>) (Some ex) fps stuck_draws =
     Inr ((5, 5), game_food\<lparr>position := Some (5, 5)\<rparr>)"
proof -
  assume ex: "(5, 5) \<notin> set ex"
  have "generate_loop (game_food\<lparr>position := pos, food_type := ty, food_value := v,
               lifetime := l, is_expired := b\<rparr>) ex (cells stuck_draws) 0 = Inr (Some (5, 5))"
    by (rule generate_loop_hit [where c = "cells stuck_draws" and a = 0])
      (simp_all add: max_attempts_def get_random_position_def randint_def stuck_draws_def
        food_is_valid_position_def game_food_area ex)
  then show ?thesis
    by (simp add: generate_cases Let_def)
      (simp add: stuck_draws_def config_defs game_food_eval)
qed

section \<open>Sessions of the game\<close>

lemma run_append:
  "run g (xs @ ys) = (case run g xs of Inl e \<Rightarrow> Inl e | Inr g' \<Rightarrow> run g' ys)"
proof (induction g xs rule: run.induct)
  case (1 g)
  show ?case by simp
next
  case (2 g k d rest)
  then show ?case by (cases "handle_keydown g k d") simp_all
next
  case (3 g d1 d2 rest)
  then show ?case by (cases "game_update g d1 d2") simp_all
qed

lemma new_game_fresh_menu: "new_game second_try_draws = Inr fresh_menu"
proof -
  have "generate_loop game_food [(20, 11), (19, 11), (18, 11)] (cells second_try_draws) 0 =
          Inr (Some (5, 4))"
    by (rule generate_loop_hit [where c = "cells second_try_draws" and a = 0])
      (simp_all add: max_attempts_def get_random_position_def randint_def second_try_draws_def
        food_is_valid_position_def game_food_area)
  then have "generate game_food (Some [(20, 11), (19, 11), (18, 11)]) 4 second_try_draws =
          Inr ((5, 4), game_food\<lparr>position := Some (5, 4)\<rparr>)"
    by (simp add: generate_cases Let_def)
      (simp add: second_try_draws_def config_defs game_food_eval)
  then show ?thesis
    by (simp add: new_game_def generate_food_def get_body_positions_def fresh_menu_def
        INITIAL_FPS_def Let_def game_snake_def [symmetric] game_food_def [symmetric])
      (simp add: game_snake_eval)
qed

lemma start_fresh_menu: "start_game fresh_menu cookie_draws = Inr started_game"
proof -
  have ex: "(5, 4) \<notin> set [(20, 11), (19, 11), (18, 11) :: position]"
    by simp
  show ?thesis
    using cookie_generate_game_food [OF ex, where pos = "Some (5, 4)" and ty = "''normal''"
        and v = 10 and l = 0 and b = False and fps = 4]
    by (simp add: start_game_def generate_food_def get_body_positions_def Let_def
        fresh_menu_def started_game_def snake_reset_eval INITIAL_FPS_def game_food_eval
        game_snake_eval)
qed

text \<open>
  A simulation step of a game in progress whose cookie has more than one tick left and
  is not marked expired, and whose snake moves to a free cell without food.
\<close>

lemma quiet_tick:
  assumes "food_type (food g) = ''cookie''" and "1 < lifetime (food g)"
    and "\<not> is_expired (food g)"
    and "move (snake g) = Inr (True, sn)" and "body sn = h # rest"
    and "position (food g) = Some p" and "h \<noteq> p"
  shows "update_game g d1 d2 =
           Inr (g\<lparr>food := (food g)\<lparr>lifetime := lifetime (food g) - 1\<rparr>, snake := sn\<rparr>)"
proof -
  have u: "update (food g) = (food g)\<lparr>lifetime := lifetime (food g) - 1\<rparr>"
    using assms(1,2) by (rule update_cookie_step)
  have "\<not> is_expired (update (food g))"
    unfolding u using assms(3) by simp
  then show ?thesis
    unfolding update_game_no_respawn [OF \<open>\<not> is_expired (update (food g))\<close>] u
    using assms(4-7)
    by (simp add: move_snake_and_eat_def Let_def get_head_position_def is_eaten_def)
qed

lemma first_ticks:
  "run fresh_menu
     [KEYDOWN K_SPACE cookie_draws, KEYDOWN K_UP cookie_draws,
      UPDATE cookie_draws cookie_draws, KEYDOWN K_RIGHT cookie_draws,
      UPDATE cookie_draws cookie_draws, UPDATE cookie_draws cookie_draws] =
   Inr (on_row_10 2)"
proof -
  let ?cookie = "\<lambda>l. game_food\<lparr>position := Some (5, 4), food_type := ''cookie'',
                              food_value := 20, lifetime := l\<rparr>"
  let ?game = "\<lambda>b d n l. \<lparr>state = PLAYING, score = 0, high_score = 0, current_fps = 4,
                 snake = game_snake\<lparr>body := b, direction := d, next_direction := n\<rparr>,
                 food = ?cookie l\<rparr>"
  have k0: "handle_keydown fresh_menu K_SPACE cookie_draws = Inr started_game"
    by (simp add: handle_keydown_def fresh_menu_def [THEN arg_cong, of state]
        start_fresh_menu)
  have s0: "started_game = ?game [(20, 11), (19, 11), (18, 11)] RIGHT RIGHT 16"
    by (simp add: started_game_def game_snake_eval)
  have k1: "handle_keydown (?game [(20, 11), (19, 11), (18, 11)] RIGHT RIGHT 16) K_UP cookie_draws
              = Inr (?game [(20, 11), (19, 11), (18, 11)] RIGHT UP 16)"
    by (simp add: handle_keydown_def handle_movement_key_def direction_map_def
        update_direction_def game_snake_eval config_defs)
  have t1: "game_update (?game [(20, 11), (19, 11), (18, 11)] RIGHT UP 16) cookie_draws cookie_draws
              = Inr (?game [(20, 10), (20, 11), (19, 11)] UP UP 15)"
    unfolding game_update_def
    by (simp, subst quiet_tick [where sn = "game_snake\<lparr>body := [(20, 10), (20, 11), (19, 11)],
          direction := UP, next_direction := UP\<rparr>" and h = "(20, 10)" and p = "(5, 4)"])
      (simp_all add: game_food_eval game_snake_eval move_def snake_is_valid_position_def
        Let_def config_defs)
  have k2: "handle_keydown (?game [(20, 10), (20, 11), (19, 11)] UP UP 15) K_RIGHT cookie_draws
              = Inr (?game [(20, 10), (20, 11), (19, 11)] UP RIGHT 15)"
    by (simp add: handle_keydown_def handle_movement_key_def direction_map_def
        update_direction_def game_snake_eval config_defs)
  have t2: "game_update (?game [(20, 10), (20, 11), (19, 11)] UP RIGHT 15) cookie_draws cookie_draws
              = Inr (?game [(21, 10), (20, 10), (20, 11)] RIGHT RIGHT 14)"
    unfolding game_update_def
    by (simp, subst quiet_tick [where sn = "game_snake\<lparr>body := [(21, 10), (20, 10), (20, 11)],
          direction := RIGHT, next_direction := RIGHT\<rparr>" and h = "(21, 10)" and p = "(5, 4)"])
      (simp_all add: game_food_eval game_snake_eval move_def snake_is_valid_position_def
        Let_def config_defs)
  have t3: "game_update (?game [(21, 10), (20, 10), (20, 11)] RIGHT RIGHT 14) cookie_draws cookie_draws
              = Inr (?game [(22, 10), (21, 10), (20, 10)] RIGHT RIGHT 13)"
    unfolding game_update_def
    by (simp, subst quiet_tick [where sn = "game_snake\<lparr>body := [(22, 10), (21, 10), (20, 10)],
          direction := RIGHT, next_direction := RIGHT\<rparr>" and h = "(22, 10)" and p = "(5, 4)"])
      (simp_all add: game_food_eval game_snake_eval move_def snake_is_valid_position_def
        Let_def config_defs)
  have e: "?game [(22, 10), (21, 10), (20, 10)] RIGHT RIGHT 13 = on_row_10 2"
    by (simp add: on_row_10_def game_snake_eval)
  show ?thesis
    by (simp only: run.simps k0 s0 k1 t1 k2 t2 t3 e sum.case)
qed

lemma row_tick:
  assumes "k < 14"
  shows "game_update (on_row_10 k) d1 d2 = Inr (on_row_10 (Suc k))"
proof -
  have m: "move (snake (on_row_10 k)) = Inr (True, snake (on_row_10 (Suc k)))"
    using assms
    by (simp add: on_row_10_def game_snake_eval move_def snake_is_valid_position_def
        Let_def config_defs)
  have "update_game (on_row_10 k) d1 d2 =
          Inr ((on_row_10 k)\<lparr>food := (food (on_row_10 k))\<lparr>lifetime := lifetime (food (on_row_10 k)) - 1\<rparr>,
                             snake := snake (on_row_10 (Suc k))\<rparr>)"
    using assms
    by (intro quiet_tick [OF _ _ _ m, where h = "(21 + int k, 10)" and p = "(5, 4)"])
      (simp_all add: on_row_10_def game_food_eval game_snake_eval)
  also have "\<dots> = Inr (on_row_10 (Suc k))"
    by (simp add: on_row_10_def)
  finally show ?thesis
    by (simp add: game_update_def on_row_10_def)
qed

lemma row_ticks:
  "k + n \<le> 14 \<Longrightarrow>
   run (on_row_10 k) (replicate n (UPDATE d1 d2)) = Inr (on_row_10 (k + n))"
proof (induction n arbitrary: k)
  case 0
  show ?case by simp
next
  case (Suc n)
  then have "k < 14" and "Suc k + n \<le> 14"
    by simp_all
  then show ?case
    using Suc.IH [of "Suc k"] by (simp add: row_tick)
qed

lemma play_to_row_10_run: "run fresh_menu play_to_row_10 = Inr (on_row_10 13)"
proof -
  have "replicate 13 (UPDATE cookie_draws cookie_draws) =
          [UPDATE cookie_draws cookie_draws, UPDATE cookie_draws cookie_draws]
          @ replicate 11 (UPDATE cookie_draws cookie_draws)"
    by (simp add: numeral_eq_Suc)
  then have split: "play_to_row_10 =
      [KEYDOWN K_SPACE cookie_draws, KEYDOWN K_UP cookie_draws,
       UPDATE cookie_draws cookie_draws, KEYDOWN K_RIGHT cookie_draws,
       UPDATE cookie_draws cookie_draws, UPDATE cookie_draws cookie_draws]
      @ replicate 11 (UPDATE cookie_draws cookie_draws)"
    by (simp add: play_to_row_10_def)
  have rest: "run (on_row_10 2) (replicate 11 (UPDATE cookie_draws cookie_draws)) =
                Inr (on_row_10 13)"
    using row_ticks [of 2 11 cookie_draws cookie_draws] by simp
  show ?thesis
    unfolding split run_append first_ticks by (simp add: rest)
qed

text \<open>Tick 16 of the session that goes straight on: the crash.\<close>

lemma crash_tick: "game_update (on_row_10 14) cookie_draws cookie_draws = Inr crashed_game"
proof -
  let ?sn = "game_snake\<lparr>body := [(34, 10), (33, 10), (32, 10)]\<rparr>"
  have u: "update (food (on_row_10 14)) =
      game_food\<lparr>position := None, food_type := ''cookie'', food_value := 20, lifetime := 0,
                is_expired := True\<rparr>"
    by (simp add: on_row_10_def update_def Let_def game_food_eval)
  have g: "generate_food ((on_row_10 14)\<lparr>food := update (food (on_row_10 14))\<rparr>) cookie_draws =
      Inr ((on_row_10 14)\<lparr>food := game_food\<lparr>position := Some (5, 4), food_type := ''cookie'',
                 food_value := 20, lifetime := 16, is_expired := True\<rparr>\<rparr>)"
    unfolding u generate_food_def get_body_positions_def Let_def
    using cookie_generate_game_food [where ex = "[(34, 10), (33, 10), (32, 10)]" and pos = None
        and ty = "''cookie''" and v = 20 and l = 0 and b = True and fps = 4]
    by (simp add: on_row_10_def)
  have m: "move ?sn = Inr (False, ?sn)"
    by (simp add: game_snake_eval move_def snake_is_valid_position_def Let_def RIGHT_def)
  have e: "is_expired (update (food (on_row_10 14)))"
    unfolding u by simp
  have "update_game (on_row_10 14) cookie_draws cookie_draws = Inr crashed_game"
    unfolding update_game_respawn [OF e] g
    by (simp add: move_snake_and_eat_def on_row_10_def m game_over_def Let_def crashed_game_def)
  then show ?thesis
    by (simp add: game_update_def on_row_10_def)
qed

lemma play_to_crash_run: "run fresh_menu play_to_crash = Inr crashed_game"
proof -
  have "run (on_row_10 13) (replicate 2 (UPDATE cookie_draws cookie_draws)) = Inr crashed_game"
    by (simp add: numeral_2_eq_2 row_tick crash_tick)
  then show ?thesis
    unfolding play_to_crash_def run_append play_to_row_10_run by simp
qed

text \<open>Ticks 15 and 16 of the session that turns up: the cookie expires and comes back.\<close>

lemma turn_up: "handle_keydown (on_row_10 13) K_UP cookie_draws =
    Inr ((on_row_10 13)\<lparr>snake := (snake (on_row_10 13))\<lparr>next_direction := UP\<rparr>\<rparr>)"
  by (simp add: handle_keydown_def handle_movement_key_def direction_map_def
      update_direction_def on_row_10_def game_snake_eval config_defs)

lemma tick_15:
  "game_update ((on_row_10 13)\<lparr>snake := (snake (on_row_10 13))\<lparr>next_direction := UP\<rparr>\<rparr>)
     cookie_draws cookie_draws = Inr last_tick_game"
proof -
  let ?g = "(on_row_10 13)\<lparr>snake := (snake (on_row_10 13))\<lparr>next_direction := UP\<rparr>\<rparr>"
  have m: "move (snake ?g) = Inr (True, snake last_tick_game)"
    by (simp add: on_row_10_def last_tick_game_def game_snake_eval move_def
        snake_is_valid_position_def Let_def config_defs)
  have "update_game ?g cookie_draws cookie_draws =
          Inr (?g\<lparr>food := (food ?g)\<lparr>lifetime := lifetime (food ?g) - 1\<rparr>,
                  snake := snake last_tick_game\<rparr>)"
    by (intro quiet_tick [OF _ _ _ m, where h = "(33, 9)" and p = "(5, 4)"])
      (simp_all add: on_row_10_def last_tick_game_def game_food_eval game_snake_eval)
  also have "\<dots> = Inr last_tick_game"
    by (simp add: on_row_10_def last_tick_game_def)
  finally show ?thesis
    by (simp add: game_update_def on_row_10_def)
qed

lemma expiry_tick:
  "update_game last_tick_game cookie_draws cookie_draws = Inr stale_cookie_game"
proof -
  let ?sn = "game_snake\<lparr>body := [(33, 9), (33, 10), (32, 10)], direction := UP,
                         next_direction := UP\<rparr>"
  have u: "update (food last_tick_game) =
      game_food\<lparr>position := None, food_type := ''cookie'', food_value := 20, lifetime := 0,
                is_expired := True\<rparr>"
    by (simp add: last_tick_game_def update_def Let_def game_food_eval)
  have g: "generate_food (last_tick_game\<lparr>food := update (food last_tick_game)\<rparr>) cookie_draws =
      Inr (last_tick_game\<lparr>food := game_food\<lparr>position := Some (5, 4), food_type := ''cookie'',
                 food_value := 20, lifetime := 16, is_expired := True\<rparr>\<rparr>)"
    unfolding u generate_food_def get_body_positions_def Let_def
    using cookie_generate_game_food [where ex = "[(33, 9), (33, 10), (32, 10)]" and pos = None
        and ty = "''cookie''" and v = 20 and l = 0 and b = True and fps = 4]
    by (simp add: last_tick_game_def)
  have m: "move ?sn = Inr (True, ?sn\<lparr>body := [(33, 8), (33, 9), (33, 10)]\<rparr>)"
    by (simp add: game_snake_eval move_def snake_is_valid_position_def Let_def config_defs)
  have e: "is_expired (update (food last_tick_game))"
    unfolding u by simp
  show ?thesis
    unfolding update_game_respawn [OF e] g
    by (simp add: move_snake_and_eat_def last_tick_game_def m Let_def stale_cookie_game_def
        get_head_position_def is_eaten_def)
qed

lemma play_to_stale_cookie_run: "run fresh_menu play_to_stale_cookie = Inr stale_cookie_game"
proof -
  have "game_update last_tick_game cookie_draws cookie_draws = Inr stale_cookie_game"
    by (simp add: game_update_def expiry_tick) (simp add: last_tick_game_def)
  then have "run (on_row_10 13)
          [KEYDOWN K_UP cookie_draws, UPDATE cookie_draws cookie_draws,
           UPDATE cookie_draws cookie_draws] = Inr stale_cookie_game"
    by (simp add: turn_up tick_15)
  then show ?thesis
    unfolding play_to_stale_cookie_def run_append play_to_row_10_run by simp
qed

text \<open>The tick after that: the new cookie is replaced at once.\<close>

lemma replacement_tick:
  "update_game stale_cookie_game stuck_draws stuck_draws = Inr replaced_game"
proof -
  let ?sn = "game_snake\<lparr>body := [(33, 8), (33, 9), (33, 10)], direction := UP,
                         next_direction := UP\<rparr>"
  have u: "update (food stale_cookie_game) =
      game_food\<lparr>position := Some (5, 4), food_type := ''cookie'', food_value := 20,
                lifetime := 15, is_expired := True\<rparr>"
    by (simp add: stale_cookie_game_def update_def Let_def game_food_eval)
  have g: "generate_food (stale_cookie_game\<lparr>food := update (food stale_cookie_game)\<rparr>)
             stuck_draws =
      Inr (stale_cookie_game\<lparr>food := game_food\<lparr>position := Some (5, 5)\<rparr>\<rparr>)"
    unfolding u generate_food_def get_body_positions_def Let_def
    using stuck_generate_game_food [where ex = "[(33, 8), (33, 9), (33, 10)]"
        and pos = "Some (5, 4)" and ty = "''cookie''" and v = 20 and l = 15 and b = True
        and fps = 4]
    by (simp add: stale_cookie_game_def)
  have m: "move ?sn = Inr (True, ?sn\<lparr>body := [(33, 7), (33, 8), (33, 9)]\<rparr>)"
    by (simp add: game_snake_eval move_def snake_is_valid_position_def Let_def config_defs)
  have e: "is_expired (update (food stale_cookie_game))"
    unfolding u by simp
  show ?thesis
    unfolding update_game_respawn [OF e] g
    by (simp add: move_snake_and_eat_def stale_cookie_game_def m Let_def replaced_game_def
        get_head_position_def is_eaten_def game_food_eval)
qed

section \<open>The lifetime of a cookie\<close>

text \<open>
  What holds of every cookie that \<open>generate\<close> picks at a positive tick rate \<open>r\<close>: its
  lifetime is \<open>4 * r\<close>; \<open>k < 4 * r\<close> calls of \<open>update\<close> take \<open>k\<close> off the lifetime and
  change nothing else; after exactly \<open>4 * r\<close> calls the position is cleared and the food
  is marked expired. On food that is not a cookie \<open>update\<close> changes nothing
  (\<open>update_not_cookie\<close>).
\<close>

lemma cookie_countdown:
  assumes "generate F exo r d = Inr (p, C)"
    and "roll d < COOKIE_SPAWN_CHANCE"
    and "0 < r"
    and "int k < 4 * r"
  shows "food_type C = ''cookie'' \<and> lifetime C = 4 * r \<and> position C = Some p \<and>
         (update ^^ k) C = C\<lparr>lifetime := 4 * r - int k\<rparr> \<and>
         (update ^^ nat (4 * r)) C = C\<lparr>lifetime := 0, is_expired := True, position := None\<rparr>"
proof -
  have C: "C = F\<lparr>food_type := ''cookie'', food_value := COOKIE_FOOD_VALUE,
               lifetime := COOKIE_LIFETIME * r, position := Some p\<rparr>"
    using generate_cookie [OF assms(1,2)] .
  have ty: "food_type C = ''cookie''" and lt: "lifetime C = 4 * r" and pos: "position C = Some p"
    by (simp_all add: C COOKIE_LIFETIME_def)
  have run: "(update ^^ k) C = C\<lparr>lifetime := 4 * r - int k\<rparr>"
    using update_funpow_running [of C k] ty lt assms(4) by simp
  have expd: "(update ^^ nat (4 * r)) C = C\<lparr>lifetime := 0, is_expired := True, position := None\<rparr>"
    using update_funpow_expired [of C] ty lt assms(3) by simp
  show ?thesis
    using ty lt pos run expd by simp
qed

text \<open>
  Claim C6 says that a cookie generated at tick rate \<open>r\<close> is cleared and replaced after
  exactly \<open>4 * r\<close> calls of \<open>update\<close>. The code breaks this for the cookie that is generated
  when a cookie has just expired. On tick 16 of the session \<open>play_to_stale_cookie\<close> the
  old cookie expires and \<open>generate\<close>, at tick rate 4, picks a cookie at (5, 4) with
  lifetime 16, which keeps the expired mark of the old one. On the next tick \<open>update\<close>
  takes the lifetime to 15 and leaves the position, and the step generates new food all
  the same: the cookie is gone after one call, not sixteen.
\<close>

theorem C6_cookie_replaced_after_one_tick:
  "generate (update (food last_tick_game)) (Some (get_body_positions (snake last_tick_game)))
     (current_fps last_tick_game) cookie_draws = Inr ((5, 4), food stale_cookie_game) \<and>
   update_game last_tick_game cookie_draws cookie_draws = Inr stale_cookie_game \<and>
   current_fps last_tick_game = 4 \<and>
   food_type (food stale_cookie_game) = ''cookie'' \<and>
   lifetime (food stale_cookie_game) = 4 * 4 \<and>
   position (food stale_cookie_game) = Some (5, 4) \<and>
   update (food stale_cookie_game) = (food stale_cookie_game)\<lparr>lifetime := 15\<rparr> \<and>
   update_game stale_cookie_game stuck_draws stuck_draws = Inr replaced_game \<and>
   food replaced_game = game_food\<lparr>position := Some (5, 5)\<rparr>"
proof -
  have gen: "generate (update (food last_tick_game))
      (Some (get_body_positions (snake last_tick_game))) (current_fps last_tick_game)
      cookie_draws = Inr ((5, 4), food stale_cookie_game)"
    using cookie_generate_game_food [where ex = "[(33, 9), (33, 10), (32, 10)]" and pos = None
        and ty = "''cookie''" and v = 20 and l = 0 and b = True and fps = 4]
    by (simp add: last_tick_game_def stale_cookie_game_def update_def Let_def game_food_eval
        get_body_positions_def)
  have facts: "current_fps last_tick_game = 4"
    "food_type (food stale_cookie_game) = ''cookie''"
    "lifetime (food stale_cookie_game) = 4 * 4"
    "position (food stale_cookie_game) = Some (5, 4)"
    "update (food stale_cookie_game) = (food stale_cookie_game)\<lparr>lifetime := 15\<rparr>"
    "food replaced_game = game_food\<lparr>position := Some (5, 5)\<rparr>"
    by (simp_all add: last_tick_game_def stale_cookie_game_def replaced_game_def update_def
        Let_def game_food_eval)
  from gen facts expiry_tick replacement_tick show ?thesis
    by blast
qed

section \<open>Leaving to the menu, starting and restarting\<close>

text \<open>What \<open>return_to_menu\<close> does to every game state.\<close>

lemma return_to_menu_effect:
  "state (return_to_menu g) = MENU \<and>
   score (return_to_menu g) = 0 \<and>
   current_fps (return_to_menu g) = INITIAL_FPS \<and>
   snake (return_to_menu g) =
     new_snake (playable_start_x (snake g)) (playable_start_y (snake g))
       (playable_width (snake g)) (playable_height (snake g)) \<and>
   body (snake (return_to_menu g)) = [(20, 11), (19, 11), (18, 11)] \<and>
   direction (snake (return_to_menu g)) = RIGHT \<and>
   next_direction (snake (return_to_menu g)) = RIGHT \<and>
   grow_pending (snake (return_to_menu g)) = False \<and>
   food (return_to_menu g) = food g \<and>
   high_score (return_to_menu g) = high_score g"
  by (cases "snake g")
    (simp add: return_to_menu_def snake_reset_eval new_snake_def initialize_body_eval)

text \<open>
  Claim C8 says that leaving to the menu resets the food. The code breaks this:
  \<open>return_to_menu\<close> resets the snake, the score and the tick rate and never touches the
  food, although \<open>food_reset\<close> is there for it. Escape in \<open>stale_cookie_game\<close> gives the
  menu state with the cookie of the abandoned session still in place, position and
  expired mark included. The mark then leaks into the next session: starting from that
  menu state gives a game whose food is marked expired, where the same start after
  \<open>food_reset\<close> gives \<open>started_game\<close>, the state of a fresh start.
\<close>

theorem C8_return_to_menu_keeps_food:
  "handle_keydown stale_cookie_game K_ESCAPE cookie_draws =
     Inr (return_to_menu stale_cookie_game) \<and>
   return_to_menu stale_cookie_game = fresh_menu\<lparr>food := food stale_cookie_game\<rparr> \<and>
   position (food (return_to_menu stale_cookie_game)) = Some (5, 4) \<and>
   is_expired (food (return_to_menu stale_cookie_game)) = True \<and>
   food (return_to_menu stale_cookie_game) \<noteq> food_reset (food stale_cookie_game) \<and>
   start_game (return_to_menu stale_cookie_game) cookie_draws =
     Inr (started_game\<lparr>food := (food started_game)\<lparr>is_expired := True\<rparr>\<rparr>) \<and>
   start_game ((return_to_menu stale_cookie_game)\<lparr>food := food_reset (food stale_cookie_game)\<rparr>)
     cookie_draws = Inr started_game"
proof -
  have ex: "(5, 4) \<notin> set [(20, 11), (19, 11), (18, 11) :: position]"
    by simp
  have k: "handle_keydown stale_cookie_game K_ESCAPE cookie_draws =
             Inr (return_to_menu stale_cookie_game)"
    by (simp add: handle_keydown_def stale_cookie_game_def)
  have r: "return_to_menu stale_cookie_game = fresh_menu\<lparr>food := food stale_cookie_game\<rparr>"
    by (simp add: return_to_menu_def stale_cookie_game_def fresh_menu_def snake_reset_eval
        game_snake_eval INITIAL_FPS_def)
  have f: "position (food (return_to_menu stale_cookie_game)) = Some (5, 4)"
    "is_expired (food (return_to_menu stale_cookie_game)) = True"
    "food (return_to_menu stale_cookie_game) \<noteq> food_reset (food stale_cookie_game)"
    unfolding r by (simp_all add: stale_cookie_game_def food_reset_def game_food_eval)
  have s1: "start_game (return_to_menu stale_cookie_game) cookie_draws =
     Inr (started_game\<lparr>food := (food started_game)\<lparr>is_expired := True\<rparr>\<rparr>)"
    unfolding r
    using cookie_generate_game_food [OF ex, where pos = "Some (5, 4)" and ty = "''cookie''"
        and v = 20 and l = 16 and b = True and fps = 4]
    by (simp add: start_game_def generate_food_def get_body_positions_def Let_def
        fresh_menu_def stale_cookie_game_def started_game_def snake_reset_eval INITIAL_FPS_def
        game_food_eval game_snake_eval)
  have s2: "start_game ((return_to_menu stale_cookie_game)
              \<lparr>food := food_reset (food stale_cookie_game)\<rparr>) cookie_draws = Inr started_game"
    unfolding r
    using cookie_generate_game_food [OF ex, where pos = None and ty = "''normal''"
        and v = 10 and l = 0 and b = False and fps = 4]
    by (simp add: start_game_def generate_food_def get_body_positions_def Let_def
        fresh_menu_def stale_cookie_game_def started_game_def snake_reset_eval INITIAL_FPS_def
        game_food_eval game_snake_eval food_reset_def NORMAL_FOOD_VALUE_def)
  from k r f s1 s2 show ?thesis by blast
qed

text \<open>
  Claim C9 says that restarting after game over gives the state of a fresh start, the high
  score apart. The code breaks this through the \<open>is_expired\<close> flag of the food. With random
  outcomes that pick a cookie, starting from the freshly constructed menu state gives
  \<open>started_game\<close>, whose food is not expired. \<open>crashed_game\<close> is the game-over state that
  the session \<open>play_to_crash\<close> ends in; the key R there restarts, and the restart gives
  \<open>started_game\<close> with the food marked expired.
\<close>

theorem C9_restart_differs_from_fresh_start:
  "start_game fresh_menu cookie_draws = Inr started_game \<and>
   handle_keydown crashed_game K_r cookie_draws = restart_game crashed_game cookie_draws \<and>
   restart_game crashed_game cookie_draws =
     Inr (started_game\<lparr>food := (food started_game)\<lparr>is_expired := True\<rparr>\<rparr>) \<and>
   is_expired (food started_game) = False"
proof -
  have ex: "(5, 4) \<notin> set [(20, 11), (19, 11), (18, 11) :: position]"
    by simp
  have k: "handle_keydown crashed_game K_r cookie_draws = restart_game crashed_game cookie_draws"
    by (simp add: handle_keydown_def crashed_game_def)
  have b: "restart_game crashed_game cookie_draws =
     Inr (started_game\<lparr>food := (food started_game)\<lparr>is_expired := True\<rparr>\<rparr>)"
    using cookie_generate_game_food [OF ex, where pos = "Some (5, 4)" and ty = "''cookie''"
        and v = 20 and l = 16 and b = True and fps = 4]
    by (simp add: restart_game_def start_game_def generate_food_def get_body_positions_def
        Let_def crashed_game_def started_game_def snake_reset_eval INITIAL_FPS_def
        game_food_eval game_snake_eval)
  have c: "is_expired (food started_game) = False"
    by (simp add: started_game_def game_food_eval)
  from start_fresh_menu k b c show ?thesis by blast
qed

end
